theory Spec2Isabelle
  imports Main "HOL-Library.Word"
begin

unbundle bit_operations_syntax

section \<open>The JOS kernel monitor (kern/monitor.c)\<close>

text \<open>
  A shallow embedding of \<^verbatim>\<open>kern/monitor.c\<close>: the command table, the five command
  handlers, the tokenizer and dispatcher \<^verbatim>\<open>runcmd\<close> and the read-eval-print loop
  \<^verbatim>\<open>monitor\<close>.

  Machine words are \<open>32 word\<close> (the kernel is built for 32-bit x86, so
  \<^verbatim>\<open>uint32_t\<close>, \<^verbatim>\<open>uintptr_t\<close>, \<^verbatim>\<open>pte_t\<close>, \<^verbatim>\<open>physaddr_t\<close> and \<^verbatim>\<open>size_t\<close> are all
  32 bits wide and unsigned). A C string is the \<open>string\<close> of its bytes before the
  terminating NUL byte. The argument vector \<^verbatim>\<open>argv\<close> is a \<open>string list\<close> and
  \<^verbatim>\<open>argc\<close> is its length.
\<close>

type_synonym u32 = "32 word"

subsection \<open>Machine state observed by the monitor\<close>

text \<open>
  The monitor only writes to the console. \<open>console\<close> is the sequence of characters
  written by the \<^verbatim>\<open>cprintf\<close> calls of \<^verbatim>\<open>monitor.c\<close>, oldest first. Two further
  components record what the code asks of its collaborators, in call order:
  \<open>pte_queries\<close> holds the argument of every call of \<^verbatim>\<open>page_table_entry\<close>, and
  \<open>mem_reads\<close> the address of every word that the stack unwinder reads through
  its frame pointer.
\<close>

record mon_state =
  console :: string
  pte_queries :: "u32 list"
  mem_reads :: "u32 list"

definition cprintf :: "string \<Rightarrow> mon_state \<Rightarrow> mon_state" where
  "cprintf s st = st\<lparr>console := console st @ s\<rparr>"

subsection \<open>Number formatting of cprintf\<close>

text \<open>
  Modelled from the spec: the conversions \<^verbatim>\<open>%08x\<close> and \<^verbatim>\<open>%d\<close> of \<^verbatim>\<open>cprintf\<close>
  (\<^verbatim>\<open>lib/printfmt.c\<close> is not part of the sources at hand). The spec asks for the
  "value in hexadecimal" under the format \<^verbatim>\<open>0x%08x\<close>: eight lower-case hexadecimal
  digits, most significant first, padded with zeros. \<^verbatim>\<open>%d\<close> prints a signed
  decimal number.
\<close>

definition hexdigit :: "nat \<Rightarrow> char" where
  "hexdigit n = ''0123456789abcdef'' ! (n mod 16)"

definition hex8 :: "u32 \<Rightarrow> string" where
  "hex8 w = map (\<lambda>i. hexdigit (unat (drop_bit (4 * i) w AND 0xF))) [7, 6, 5, 4, 3, 2, 1, 0]"

function dec_nat :: "nat \<Rightarrow> string" where
  "dec_nat n = (if n < 10 then [hexdigit n] else dec_nat (n div 10) @ [hexdigit (n mod 10)])"
  by pat_completeness auto
termination
  by (relation "measure (\<lambda>n. n)") auto

declare dec_nat.simps [simp del]

definition dec :: "int \<Rightarrow> string" where
  "dec i = (if i < 0 then CHR ''-'' # dec_nat (nat (- i)) else dec_nat (nat i))"

subsection \<open>Constants of inc/mmu.h\<close>

text \<open>
  Modelled from the spec: \<^verbatim>\<open>PGSIZE\<close>, \<^verbatim>\<open>PTE_ADDR\<close> and \<^verbatim>\<open>PGNUM\<close> (\<^verbatim>\<open>inc/mmu.h\<close> is not
  part of the sources at hand). The spec fixes the page size at 4096 bytes, with
  the low 12 bits of an address being the offset inside the page; the physical
  address of a page table entry is the entry with those 12 bits cleared and the
  physical frame number is that address divided by the page size.
\<close>

definition PGSIZE :: u32 where
  "PGSIZE = 4096"

definition PTE_ADDR :: "u32 \<Rightarrow> u32" where
  "PTE_ADDR pte = pte AND NOT 0xFFF"

definition PGNUM :: "u32 \<Rightarrow> u32" where
  "PGNUM la = drop_bit 12 la"

text \<open>
  The nine flag masks of a page table entry are macros of the same absent header.
  Their values are not needed: they are parameters of the model.
\<close>

record mmu =
  PTE_P :: u32
  PTE_W :: u32
  PTE_U :: u32
  PTE_PWT :: u32
  PTE_PCD :: u32
  PTE_A :: u32
  PTE_D :: u32
  PTE_PS :: u32
  PTE_G :: u32

subsection \<open>Collaborators outside monitor.c\<close>

text \<open>
  The names of the memory layout constants of \<^verbatim>\<open>inc/memlayout.h\<close> that
  \<^verbatim>\<open>get_va_ref_point\<close> knows. Their values are parameters of the model (\<open>layout\<close>).
\<close>

datatype layout_const =
  KERNBASE | IOPHYSMEM | EXTPHYSMEM | KSTACKTOP | KSTKSIZE | KSTKGAP | MMIOLIM
  | MMIOBASE | ULIM | UVPT | UPAGES | UENVS | UTOP | UXSTACKTOP | USTACKTOP | UTEXT
  | UTEMP | PFTEMP | USTABDATA

text \<open>
  \<^verbatim>\<open>struct Eipdebuginfo\<close> as \<^verbatim>\<open>mon_backtrace\<close> uses it. \<open>eip_fn_name\<close> is a pointer
  to characters that need not be NUL-terminated: it is the function from an index
  to the character stored there.
\<close>

record eipdebuginfo =
  eip_file :: string
  eip_line :: int
  eip_fn_name :: "nat \<Rightarrow> char"
  eip_fn_namelen :: int
  eip_fn_addr :: u32
  eip_fn_narg :: int

text \<open>
  The linker symbols printed by \<^verbatim>\<open>mon_kerninfo\<close>.
\<close>

record kernel_symbols =
  sym_start :: u32
  sym_entry :: u32
  sym_etext :: u32
  sym_edata :: u32
  sym_end :: u32

text \<open>
  Everything \<^verbatim>\<open>monitor.c\<close> reads from the rest of the kernel:
  \<^item> \<open>page_table_entry va\<close> is \<open>None\<close> when \<^verbatim>\<open>page_table_entry(va)\<close> returns the null
    pointer and \<open>Some pte\<close> when it returns a pointer to the entry \<open>pte\<close>;
  \<^item> \<open>npages\<close> is the number of physical pages the kernel manages;
  \<^item> \<open>strtol s\<close> is the result of \<^verbatim>\<open>strtol(s, &str_end, 0)\<close>: the \<^verbatim>\<open>long\<close> it returns
    and the number of characters of \<open>s\<close> it consumed (\<^verbatim>\<open>str_end - s\<close>);
  \<^item> \<open>read_ebp\<close> is the frame pointer register on entry to \<^verbatim>\<open>mon_backtrace\<close>;
  \<^item> \<open>mem a\<close> is the 32-bit word stored at address \<open>a\<close>;
  \<^item> \<open>debuginfo_eip\<close> is what \<^verbatim>\<open>debuginfo_eip\<close> leaves in its result structure;
  \<^item> \<open>layout\<close>, \<open>mmu\<close> and \<open>syms\<close> are the constants of the absent headers and of
    the linker script.
\<close>

record env =
  page_table_entry :: "u32 \<Rightarrow> u32 option"
  npages :: u32
  strtol :: "string \<Rightarrow> int \<times> nat"
  read_ebp :: u32
  mem :: "u32 \<Rightarrow> u32"
  debuginfo_eip :: "u32 \<Rightarrow> eipdebuginfo"
  layout :: "layout_const \<Rightarrow> u32"
  mmu :: mmu
  syms :: kernel_symbols

subsection \<open>The page-mapping inspector\<close>

text \<open>
  Modelled from the spec: \<^verbatim>\<open>cprintf_sep\<close> (its definition is not part of the sources
  at hand). The spec wants the mnemonics "comma-joined, no trailing comma": the
  separator is printed before the text whenever something was printed before,
  which the flag \<^verbatim>\<open>comma\<close> records.
\<close>

definition cprintf_sep :: "string \<Rightarrow> string \<Rightarrow> int \<times> mon_state \<Rightarrow> int \<times> mon_state" where
  "cprintf_sep sep s cs =
     (case cs of (comma, st) \<Rightarrow> (1, cprintf ((if comma \<noteq> 0 then sep else []) @ s) st))"

text \<open>
  One line \<^verbatim>\<open>if( *pte & FLAG ) cprintf_sep(&comma, ",", "NAME");\<close> of
  \<^verbatim>\<open>show_page_details\<close>.
\<close>

definition show_flag :: "u32 \<Rightarrow> u32 \<Rightarrow> string \<Rightarrow> int \<times> mon_state \<Rightarrow> int \<times> mon_state" where
  "show_flag pte flag nm cs = (if pte AND flag \<noteq> 0 then cprintf_sep '','' nm cs else cs)"

definition show_page_details :: "env \<Rightarrow> u32 \<Rightarrow> mon_state \<Rightarrow> mon_state" where
  "show_page_details E va st =
     (let st0 = st\<lparr>pte_queries := pte_queries st @ [va]\<rparr> in
      case page_table_entry E va of
        None \<Rightarrow> cprintf (''va 0x'' @ hex8 va @ '' -> unmapped\<newline>'') st0
      | Some pte \<Rightarrow>
          let st1 = cprintf (''va 0x'' @ hex8 va @ '' -> pa 0x'' @ hex8 (PTE_ADDR pte) @ '' ['') st0;
              c0 = (0, st1);
              c1 = show_flag pte (PTE_P (mmu E)) ''P'' c0;
              c2 = show_flag pte (PTE_W (mmu E)) ''W'' c1;
              c3 = show_flag pte (PTE_U (mmu E)) ''U'' c2;
              c4 = show_flag pte (PTE_PWT (mmu E)) ''PWT'' c3;
              c5 = show_flag pte (PTE_PCD (mmu E)) ''PCD'' c4;
              c6 = show_flag pte (PTE_A (mmu E)) ''A'' c5;
              c7 = show_flag pte (PTE_D (mmu E)) ''D'' c6;
              c8 = show_flag pte (PTE_PS (mmu E)) ''PS'' c7;
              c9 = show_flag pte (PTE_G (mmu E)) ''G'' c8;
              st2 = cprintf '']'' (snd c9);
              st3 = (if PGNUM (PTE_ADDR pte) \<ge> npages E
                     then cprintf '' (no physical memory present)'' st2 else st2)
          in cprintf ''\<newline>'' st3)"

text \<open>
  The loop \<^verbatim>\<open>for(; va_start <= va_end; va_start += PGSIZE)\<close>. Both variables are
  unsigned 32-bit words, so the addition wraps around; the loop need not
  terminate, in which case the result is \<open>None\<close>.
\<close>

partial_function (option) pagemappings_loop :: "env \<Rightarrow> u32 \<Rightarrow> u32 \<Rightarrow> mon_state \<Rightarrow> mon_state option" where
  "pagemappings_loop E va_start va_end st =
     (if va_start \<le> va_end
      then pagemappings_loop E (va_start + PGSIZE) va_end (show_page_details E va_start st)
      else Some st)"

declare pagemappings_loop.simps [code]

text \<open>
  Lines 147 to 151: both addresses are masked with \<^verbatim>\<open>~0xFFF\<close>, then the loop runs
  and the handler returns 0.
\<close>

definition pagemappings_range :: "env \<Rightarrow> u32 \<Rightarrow> u32 \<Rightarrow> mon_state \<Rightarrow> (int \<times> mon_state) option" where
  "pagemappings_range E va_start va_end st =
     map_option (\<lambda>st'. (0, st'))
       (pagemappings_loop E (va_start AND NOT 0xFFF) (va_end AND NOT 0xFFF) st)"

text \<open>
  \<^verbatim>\<open>str_end != strfind(s, '\0')\<close>: \<^verbatim>\<open>strfind(s, '\0')\<close> points at the terminating NUL
  of \<open>s\<close>, so the test asks whether \<^verbatim>\<open>strtol\<close> stopped before the end of \<open>s\<close>.
\<close>

definition not_fully_parsed :: "env \<Rightarrow> string \<Rightarrow> bool" where
  "not_fully_parsed E s = (snd (strtol E s) \<noteq> length s)"

abbreviation squote :: string where
  "squote \<equiv> [CHR 0x27]"

definition mon_pagemappings :: "env \<Rightarrow> string list \<Rightarrow> mon_state \<Rightarrow> (int \<times> mon_state) option" where
  "mon_pagemappings E argv st =
     (if length argv < 2
      then Some (- 1, cprintf ''pagemappings expects at least one argument\<newline>'' st)
      else if length argv > 3
      then Some (- 1, cprintf ''pagemappings expects at most two arguments\<newline>'' st)
      else
        let va_start = (word_of_int (fst (strtol E (argv ! 1))) :: u32) in
        if not_fully_parsed E (argv ! 1)
        then Some (- 1, cprintf (''pagemappings: expecting number as first argument, could not parse ''
                                 @ squote @ argv ! 1 @ squote @ ''\<newline>'') st)
        else
          if length argv = 3
          then
            let va_end = (word_of_int (fst (strtol E (argv ! 2))) :: u32) in
            if not_fully_parsed E (argv ! 2)
            then Some (- 1, cprintf (''pagemappings: expecting number as second argument, could not parse ''
                                     @ squote @ argv ! 2 @ squote @ ''\<newline>'') st)
            else pagemappings_range E va_start va_end st
          else pagemappings_range E va_start va_start st)"

subsection \<open>The constant resolver\<close>

text \<open>
  Modelled from the spec: \<^verbatim>\<open>strcmp\<close> (\<^verbatim>\<open>lib/string.c\<close> is not part of the sources at
  hand). Names are compared by "exact (case-sensitive) match": the result is 0
  exactly when the two strings are equal. \<^verbatim>\<open>monitor.c\<close> only tests the result
  against 0, so every other result is represented by 1.
\<close>

definition strcmp :: "string \<Rightarrow> string \<Rightarrow> int" where
  "strcmp p q = (if p = q then 0 else 1)"

text \<open>
  \<^verbatim>\<open>get_va_ref_point(name, &va)\<close> returns 1 and stores the constant, or returns 0
  and stores nothing: the result is \<open>Some\<close> of the stored value, or \<open>None\<close>.
\<close>

definition get_va_ref_point :: "env \<Rightarrow> string \<Rightarrow> u32 option" where
  "get_va_ref_point E nm =
     (if 0 = strcmp nm ''KERNBASE'' then Some (layout E KERNBASE)
      else if 0 = strcmp nm ''IOPHYSMEM'' then Some (layout E IOPHYSMEM)
      else if 0 = strcmp nm ''EXTPHYSMEM'' then Some (layout E EXTPHYSMEM)
      else if 0 = strcmp nm ''KSTACKTOP'' then Some (layout E KSTACKTOP)
      else if 0 = strcmp nm ''KSTKSIZE'' then Some (layout E KSTKSIZE)
      else if 0 = strcmp nm ''KSTKGAP'' then Some (layout E KSTKGAP)
      else if 0 = strcmp nm ''MMIOLIM'' then Some (layout E MMIOLIM)
      else if 0 = strcmp nm ''MMIOBASE'' then Some (layout E MMIOBASE)
      else if 0 = strcmp nm ''ULIM'' then Some (layout E ULIM)
      else if 0 = strcmp nm ''UVPT'' then Some (layout E UVPT)
      else if 0 = strcmp nm ''UPAGES'' then Some (layout E UPAGES)
      else if 0 = strcmp nm ''UENVS'' then Some (layout E UENVS)
      else if 0 = strcmp nm ''UTOP'' then Some (layout E UTOP)
      else if 0 = strcmp nm ''UXSTACKTOP'' then Some (layout E UXSTACKTOP)
      else if 0 = strcmp nm ''USTACKTOP'' then Some (layout E USTACKTOP)
      else if 0 = strcmp nm ''UTEXT'' then Some (layout E UTEXT)
      else if 0 = strcmp nm ''UTEMP'' then Some (layout E UTEMP)
      else if 0 = strcmp nm ''PFTEMP'' then Some (layout E PFTEMP)
      else if 0 = strcmp nm ''USTABDATA'' then Some (layout E USTABDATA)
      else None)"

definition mon_memconst :: "env \<Rightarrow> string list \<Rightarrow> mon_state \<Rightarrow> (int \<times> mon_state) option" where
  "mon_memconst E argv st =
     (if 2 \<noteq> length argv
      then Some (- 1, cprintf ''memconst expects a single argument\<newline>'' st)
      else
        case get_va_ref_point E (argv ! 1) of
          Some va \<Rightarrow> Some (0, cprintf (argv ! 1 @ '': 0x'' @ hex8 va @ ''\<newline>'') st)
        | None \<Rightarrow>
            Some (- 1, cprintf (''memconst: unknown memory constant '' @ squote @ argv ! 1
                                @ squote @ ''\<newline>'') st))"

subsection \<open>The stack unwinder\<close>

text \<open>
  One iteration of the loop of \<^verbatim>\<open>mon_backtrace\<close> at frame pointer \<open>ebp\<close>, up to but
  not including the assignment \<^verbatim>\<open>ebp = ref[0]\<close>. \<^verbatim>\<open>ref[i]\<close> is the word at address
  \<open>ebp + 4 * i\<close>. The reads are recorded in the order the source text mentions
  them.
\<close>

definition frame_word :: "env \<Rightarrow> u32 \<Rightarrow> nat \<Rightarrow> u32" where
  "frame_word E ebp i = mem E (ebp + 4 * of_nat i)"

definition backtrace_frame :: "env \<Rightarrow> u32 \<Rightarrow> mon_state \<Rightarrow> mon_state" where
  "backtrace_frame E ebp st =
     (let ref = frame_word E ebp;
          st1 = cprintf (''ebp 0x'' @ hex8 ebp @ ''  eip 0x'' @ hex8 (ref 1)
                         @ ''  args 0x'' @ hex8 (ref 2) @ '' 0x'' @ hex8 (ref 3)
                         @ '' 0x'' @ hex8 (ref 4) @ '' 0x'' @ hex8 (ref 5) @ ''\<newline>'')
                  (st\<lparr>mem_reads := mem_reads st @ map (\<lambda>i. ebp + 4 * of_nat i) [1, 2, 3, 4, 5]\<rparr>);
          info = debuginfo_eip E (ref 1);
          st2 = cprintf (''    '' @ eip_file info @ '':'' @ dec (eip_line info) @ '': '')
                  (st1\<lparr>mem_reads := mem_reads st1 @ [ebp + 4 * of_nat 1]\<rparr>);
          st3 = cprintf (map (eip_fn_name info) [0 ..< nat (eip_fn_namelen info)]) st2;
          st4 = cprintf (''+'' @ dec (sint (ref 1 - eip_fn_addr info))
                         @ '' ('' @ dec (eip_fn_narg info) @ '')\<newline>'')
                  (st3\<lparr>mem_reads := mem_reads st3 @ [ebp + 4 * of_nat 1]\<rparr>)
      in st4)"

text \<open>
  The loop \<^verbatim>\<open>while( ebp > 0 )\<close>: it may run forever, in which case the result is
  \<open>None\<close>.
\<close>

partial_function (option) backtrace_loop :: "env \<Rightarrow> u32 \<Rightarrow> mon_state \<Rightarrow> mon_state option" where
  "backtrace_loop E ebp st =
     (if ebp > 0
      then
        let st1 = backtrace_frame E ebp st;
            st2 = st1\<lparr>mem_reads := mem_reads st1 @ [ebp + 4 * of_nat 0]\<rparr>
        in backtrace_loop E (frame_word E ebp 0) st2
      else Some st)"

declare backtrace_loop.simps [code]

definition mon_backtrace :: "env \<Rightarrow> string list \<Rightarrow> mon_state \<Rightarrow> (int \<times> mon_state) option" where
  "mon_backtrace E argv st =
     map_option (\<lambda>st'. (0, st'))
       (backtrace_loop E (read_ebp E) (cprintf ''Stack backtrace:\<newline>'' st))"

subsection \<open>The command table, help and kerninfo\<close>

text \<open>
  A function pointer of the table is the tag of the handler it points to;
  \<open>invoke\<close> below calls the handler a tag stands for.
\<close>

datatype handler = Mon_help | Mon_kerninfo | Mon_backtrace | Mon_pagemappings | Mon_memconst

record command =
  name :: string
  desc :: string
  func :: handler

definition commands :: "command list" where
  "commands =
     [\<lparr>name = ''help'', desc = ''Display this list of commands'', func = Mon_help\<rparr>,
      \<lparr>name = ''kerninfo'', desc = ''Display information about the kernel'', func = Mon_kerninfo\<rparr>,
      \<lparr>name = ''backtrace'', desc = ''Display a backtrace'', func = Mon_backtrace\<rparr>,
      \<lparr>name = ''pagemappings'', desc = ''Display page mappings for a range of pages'',
       func = Mon_pagemappings\<rparr>,
      \<lparr>name = ''memconst'', desc = ''Converts a memory constant to address'', func = Mon_memconst\<rparr>]"

definition mon_help :: "env \<Rightarrow> string list \<Rightarrow> mon_state \<Rightarrow> (int \<times> mon_state) option" where
  "mon_help E argv st =
     Some (0, foldl (\<lambda>s c. cprintf (name c @ '' - '' @ desc c @ ''\<newline>'') s) st commands)"

text \<open>
  Modelled from the spec: \<^verbatim>\<open>ROUNDUP\<close> (\<^verbatim>\<open>inc/types.h\<close> is not part of the sources at
  hand), the "footprint size" of \<^verbatim>\<open>kerninfo\<close>: the least multiple of \<open>n\<close> that is
  not below \<open>a\<close>, computed on unsigned 32-bit words.
\<close>

definition ROUNDUP :: "u32 \<Rightarrow> u32 \<Rightarrow> u32" where
  "ROUNDUP a n = (a + n - 1) - (a + n - 1) mod n"

text \<open>
  Division of C's \<^verbatim>\<open>int\<close>: the quotient is truncated towards zero.
\<close>

definition c_div :: "int \<Rightarrow> int \<Rightarrow> int" where
  "c_div a b = sgn a * sgn b * (\<bar>a\<bar> div \<bar>b\<bar>)"

definition mon_kerninfo :: "env \<Rightarrow> string list \<Rightarrow> mon_state \<Rightarrow> (int \<times> mon_state) option" where
  "mon_kerninfo E argv st =
     (let s = syms E; kb = layout E KERNBASE;
          st1 = cprintf ''Special kernel symbols:\<newline>'' st;
          st2 = cprintf (''  _start                  '' @ hex8 (sym_start s) @ '' (phys)\<newline>'') st1;
          st3 = cprintf (''  entry  '' @ hex8 (sym_entry s) @ '' (virt)  ''
                         @ hex8 (sym_entry s - kb) @ '' (phys)\<newline>'') st2;
          st4 = cprintf (''  etext  '' @ hex8 (sym_etext s) @ '' (virt)  ''
                         @ hex8 (sym_etext s - kb) @ '' (phys)\<newline>'') st3;
          st5 = cprintf (''  edata  '' @ hex8 (sym_edata s) @ '' (virt)  ''
                         @ hex8 (sym_edata s - kb) @ '' (phys)\<newline>'') st4;
          st6 = cprintf (''  end    '' @ hex8 (sym_end s) @ '' (virt)  ''
                         @ hex8 (sym_end s - kb) @ '' (phys)\<newline>'') st5;
          st7 = cprintf (''Kernel executable memory footprint: ''
                         @ dec (c_div (sint (ROUNDUP (sym_end s - sym_entry s) 1024)) 1024)
                         @ ''KB\<newline>'') st6
      in Some (0, st7))"

fun invoke :: "env \<Rightarrow> handler \<Rightarrow> string list \<Rightarrow> mon_state \<Rightarrow> (int \<times> mon_state) option" where
  "invoke E Mon_help = mon_help E"
| "invoke E Mon_kerninfo = mon_kerninfo E"
| "invoke E Mon_backtrace = mon_backtrace E"
| "invoke E Mon_pagemappings = mon_pagemappings E"
| "invoke E Mon_memconst = mon_memconst E"

subsection \<open>The tokenizer and dispatcher\<close>

definition WHITESPACE :: string where
  "WHITESPACE = [CHR 0x09, CHR 0x0D, CHR ''\<newline>'', CHR '' '']"

definition MAXARGS :: nat where
  "MAXARGS = 16"

text \<open>
  \<^verbatim>\<open>strchr(s, c)\<close> for a character \<open>c\<close> other than NUL: whether the result is a
  non-null pointer, that is, whether \<open>c\<close> occurs in \<open>s\<close>. Both uses in \<^verbatim>\<open>runcmd\<close>
  are guarded by \<^verbatim>\<open>*buf\<close>, so \<open>c\<close> is never NUL there.
\<close>

definition strchr :: "string \<Rightarrow> char \<Rightarrow> bool" where
  "strchr s c = (c \<in> set s)"

text \<open>
  The buffer pointer \<^verbatim>\<open>buf\<close> is the rest of the line from the pointer on, the
  empty string when it points at the terminating NUL.
  \<open>gobble_whitespace\<close> is the loop
  \<^verbatim>\<open>while ( *buf && strchr(WHITESPACE, *buf)) *buf++ = 0;\<close> and \<open>scan_past_arg\<close>
  the loop \<^verbatim>\<open>while ( *buf && !strchr(WHITESPACE, *buf)) buf++;\<close>. Each returns the
  pointer it leaves.
\<close>

fun gobble_whitespace :: "string \<Rightarrow> string" where
  "gobble_whitespace [] = []"
| "gobble_whitespace (c # cs) = (if strchr WHITESPACE c then gobble_whitespace cs else c # cs)"

fun scan_past_arg :: "string \<Rightarrow> string" where
  "scan_past_arg [] = []"
| "scan_past_arg (c # cs) = (if \<not> strchr WHITESPACE c then scan_past_arg cs else c # cs)"

lemma length_gobble_whitespace: "length (gobble_whitespace buf) \<le> length buf"
  by (induction buf) auto

lemma length_scan_past_arg: "length (scan_past_arg buf) \<le> length buf"
  by (induction buf) auto

lemma scan_past_arg_shorter:
  "gobble_whitespace buf \<noteq> [] \<Longrightarrow>
   length (scan_past_arg (gobble_whitespace buf)) < length buf"
proof (induction buf)
  case Nil
  then show ?case by simp
next
  case (Cons c cs)
  show ?case
  proof (cases "strchr WHITESPACE c")
    case True
    with Cons show ?thesis by simp
  next
    case False
    have "length (scan_past_arg cs) \<le> length cs"
      by (rule length_scan_past_arg)
    with False show ?thesis by simp
  qed
qed

text \<open>
  The outer loop of \<^verbatim>\<open>runcmd\<close>. \<open>argv\<close> holds the arguments saved so far, so
  \<^verbatim>\<open>argc\<close> is \<open>length argv\<close>. The pointer saved in \<^verbatim>\<open>argv[argc++]\<close> denotes the
  characters from that pointer up to the place where \<open>scan_past_arg\<close> stops: that
  place is either the end of the line or a whitespace character, which the next
  round of \<open>gobble_whitespace\<close> overwrites with NUL.
\<close>

datatype parsed = Too_many | Parsed "string list"

function parse_args :: "string \<Rightarrow> string list \<Rightarrow> parsed" where
  "parse_args buf argv =
     (let buf1 = gobble_whitespace buf in
      if buf1 = [] then Parsed argv
      else if length argv = MAXARGS - 1 then Too_many
      else
        let buf2 = scan_past_arg buf1 in
        parse_args buf2 (argv @ [take (length buf1 - length buf2) buf1]))"
  by pat_completeness auto
termination
  by (relation "measure (\<lambda>(buf, argv). length buf)") (auto simp: scan_past_arg_shorter)

declare parse_args.simps [simp del]

text \<open>
  The lookup loop over the table. The handler of the first entry whose name
  equals \<^verbatim>\<open>argv[0]\<close> is called through \<open>call\<close>.
\<close>

fun lookup_command ::
  "(handler \<Rightarrow> string list \<Rightarrow> mon_state \<Rightarrow> (int \<times> mon_state) option) \<Rightarrow> command list
   \<Rightarrow> string list \<Rightarrow> mon_state \<Rightarrow> (int \<times> mon_state) option" where
  "lookup_command call [] argv st =
     Some (0, cprintf (''Unknown command '' @ squote @ argv ! 0 @ squote @ ''\<newline>'') st)"
| "lookup_command call (c # cs) argv st =
     (if strcmp (argv ! 0) (name c) = 0 then call (func c) argv st
      else lookup_command call cs argv st)"

text \<open>
  \<^verbatim>\<open>runcmd\<close> with the table and the meaning of its function pointers as
  parameters, and \<^verbatim>\<open>runcmd\<close> itself, which uses the table \<open>commands\<close>.
\<close>

definition runcmd_with ::
  "(handler \<Rightarrow> string list \<Rightarrow> mon_state \<Rightarrow> (int \<times> mon_state) option) \<Rightarrow> command list
   \<Rightarrow> string \<Rightarrow> mon_state \<Rightarrow> (int \<times> mon_state) option" where
  "runcmd_with call cmds buf st =
     (case parse_args buf [] of
        Too_many \<Rightarrow>
          Some (0, cprintf (''Too many arguments (max '' @ dec (int MAXARGS) @ '')\<newline>'') st)
      | Parsed argv \<Rightarrow>
          if length argv = 0 then Some (0, st) else lookup_command call cmds argv st)"

definition runcmd :: "env \<Rightarrow> string \<Rightarrow> mon_state \<Rightarrow> (int \<times> mon_state) option" where
  "runcmd E buf st = runcmd_with (invoke E) commands buf st"

subsection \<open>The interpreter loop\<close>

text \<open>
  The loop \<^verbatim>\<open>while (1)\<close> of \<^verbatim>\<open>monitor\<close>, run on the results of the successive calls
  of \<^verbatim>\<open>readline\<close>: \<open>None\<close> for a null pointer, \<open>Some buf\<close> for a line. The loop
  leaves through \<^verbatim>\<open>break\<close> (\<open>Exited\<close>), or it has used up the given results and
  waits in \<^verbatim>\<open>readline\<close> (\<open>Awaiting_input\<close>), or a handler never returns (\<open>None\<close>).
\<close>

datatype outcome = Exited mon_state | Awaiting_input mon_state

fun monitor_loop :: "env \<Rightarrow> string option list \<Rightarrow> mon_state \<Rightarrow> outcome option" where
  "monitor_loop E [] st = Some (Awaiting_input st)"
| "monitor_loop E (None # inputs) st = monitor_loop E inputs st"
| "monitor_loop E (Some buf # inputs) st =
     (case runcmd E buf st of
        None \<Rightarrow> None
      | Some (r, st') \<Rightarrow> if r < 0 then Some (Exited st') else monitor_loop E inputs st')"

text \<open>
  \<^verbatim>\<open>monitor(tf)\<close>: \<open>tf\<close> is \<open>None\<close> for a null pointer and otherwise \<open>Some\<close> of the
  text that \<^verbatim>\<open>print_trapframe\<close> writes for the trap frame.
\<close>

definition monitor :: "env \<Rightarrow> string option \<Rightarrow> string option list \<Rightarrow> mon_state \<Rightarrow> outcome option" where
  "monitor E tf inputs st =
     (let st1 = cprintf ''Welcome to the JOS kernel monitor!\<newline>'' st;
          st2 = cprintf (''Type '' @ squote @ ''help'' @ squote @ '' for a list of commands.\<newline>'') st1;
          st3 = (case tf of None \<Rightarrow> st2 | Some dump \<Rightarrow> cprintf dump st2)
      in monitor_loop E inputs st3)"

section \<open>Specification\<close>

subsection \<open>The line printed for one page\<close>

text \<open>
  The flag masks with their mnemonics, in the order in which the spec lists
  them, and the mnemonics of the flags of \<open>pte\<close> that are set.
\<close>

definition flag_table :: "env \<Rightarrow> (u32 \<times> string) list" where
  "flag_table E =
     [(PTE_P (mmu E), ''P''), (PTE_W (mmu E), ''W''), (PTE_U (mmu E), ''U''),
      (PTE_PWT (mmu E), ''PWT''), (PTE_PCD (mmu E), ''PCD''), (PTE_A (mmu E), ''A''),
      (PTE_D (mmu E), ''D''), (PTE_PS (mmu E), ''PS''), (PTE_G (mmu E), ''G'')]"

definition set_flag_names :: "env \<Rightarrow> u32 \<Rightarrow> string list" where
  "set_flag_names E pte = map snd (filter (\<lambda>(flag, nm). pte AND flag \<noteq> 0) (flag_table E))"

text \<open>
  Strings joined by a separator: the separator stands between two neighbours
  only, so there is none after the last string.
\<close>

fun join :: "string \<Rightarrow> string list \<Rightarrow> string" where
  "join sep [] = []"
| "join sep [x] = x"
| "join sep (x # y # ys) = x @ sep @ join sep (y # ys)"

definition page_line :: "env \<Rightarrow> u32 \<Rightarrow> string" where
  "page_line E va =
     (case page_table_entry E va of
        None \<Rightarrow> ''va 0x'' @ hex8 va @ '' -> unmapped\<newline>''
      | Some pte \<Rightarrow>
          ''va 0x'' @ hex8 va @ '' -> pa 0x'' @ hex8 (PTE_ADDR pte) @ '' [''
          @ join '','' (set_flag_names E pte) @ '']''
          @ (if PGNUM (PTE_ADDR pte) \<ge> npages E then '' (no physical memory present)'' else [])
          @ ''\<newline>'')"

subsection \<open>The constant table\<close>

text \<open>
  The constant table of the spec: the nineteen names with their values.
\<close>

definition constant_table :: "env \<Rightarrow> (string \<times> u32) list" where
  "constant_table E =
     [(''KERNBASE'', layout E KERNBASE), (''IOPHYSMEM'', layout E IOPHYSMEM),
      (''EXTPHYSMEM'', layout E EXTPHYSMEM), (''KSTACKTOP'', layout E KSTACKTOP),
      (''KSTKSIZE'', layout E KSTKSIZE), (''KSTKGAP'', layout E KSTKGAP),
      (''MMIOLIM'', layout E MMIOLIM), (''MMIOBASE'', layout E MMIOBASE),
      (''ULIM'', layout E ULIM), (''UVPT'', layout E UVPT), (''UPAGES'', layout E UPAGES),
      (''UENVS'', layout E UENVS), (''UTOP'', layout E UTOP),
      (''UXSTACKTOP'', layout E UXSTACKTOP), (''USTACKTOP'', layout E USTACKTOP),
      (''UTEXT'', layout E UTEXT), (''UTEMP'', layout E UTEMP), (''PFTEMP'', layout E PFTEMP),
      (''USTABDATA'', layout E USTABDATA)]"

subsection \<open>The tokens of a line\<close>

text \<open>
  The maximal runs of non-whitespace characters of a line, stated without the
  tokenizer's loops: \<open>fields\<close> cuts the line at every whitespace character, which
  leaves an empty field wherever two whitespace characters meet or one stands at
  an end of the line, and \<open>runs\<close> keeps the fields that are not empty. (There is
  always at least one field, so the first branch of the case distinction in
  \<open>fields\<close> is never taken.)
\<close>

fun fields :: "string \<Rightarrow> string list" where
  "fields [] = [[]]"
| "fields (c # cs) =
     (if c \<in> set WHITESPACE then [] # fields cs
      else (case fields cs of [] \<Rightarrow> [[c]] | f # fs \<Rightarrow> (c # f) # fs))"

definition runs :: "string \<Rightarrow> string list" where
  "runs s = filter (\<lambda>f. f \<noteq> []) (fields s)"

subsection \<open>The pages of a range\<close>

text \<open>
  \<open>page_addresses a n\<close> are \<open>n\<close> addresses from \<open>a\<close> on in steps of the page size,
  and \<open>pages_between s e\<close> the page addresses from \<open>s\<close> to \<open>e\<close> inclusive (for
  page-aligned \<open>s\<close> and \<open>e\<close>), in increasing order; there is none when \<open>s\<close> is
  above \<open>e\<close>.
\<close>

definition page_addresses :: "u32 \<Rightarrow> nat \<Rightarrow> u32 list" where
  "page_addresses a n = map (\<lambda>k. a + PGSIZE * of_nat k) [0 ..< n]"

definition pages_between :: "u32 \<Rightarrow> u32 \<Rightarrow> u32 list" where
  "pages_between s e =
     (if s \<le> e then page_addresses s (Suc ((unat e - unat s) div 4096)) else [])"

subsection \<open>The frames of a stack\<close>

text \<open>
  A frame-pointer chain in memory \<open>m\<close> that starts at \<open>ebp\<close> and reaches the zero
  frame pointer after exactly \<open>n\<close> frames: \<open>m fp\<close> is word 0 of the frame at \<open>fp\<close>,
  the saved frame pointer of the caller. \<open>frames\<close> lists the \<open>n\<close> frame pointers.
\<close>

fun chain :: "(u32 \<Rightarrow> u32) \<Rightarrow> u32 \<Rightarrow> nat \<Rightarrow> bool" where
  "chain m ebp 0 = (ebp = 0)"
| "chain m ebp (Suc n) = (ebp \<noteq> 0 \<and> chain m (m ebp) n)"

fun frames :: "(u32 \<Rightarrow> u32) \<Rightarrow> u32 \<Rightarrow> nat \<Rightarrow> u32 list" where
  "frames m ebp 0 = []"
| "frames m ebp (Suc n) = ebp # frames m (m ebp) n"

text \<open>
  The two lines printed for the frame at \<open>fp\<close>: the frame line with the frame
  pointer, word 1 as the return address and words 2 to 5 as arguments, and the
  line with what the resolver says about the return address. \<open>frame_reads\<close> are
  the addresses read in a frame, in the order of the source text.
\<close>

definition frame_line :: "env \<Rightarrow> u32 \<Rightarrow> string" where
  "frame_line E fp =
     ''ebp 0x'' @ hex8 fp @ ''  eip 0x'' @ hex8 (mem E (fp + 4))
     @ ''  args 0x'' @ hex8 (mem E (fp + 8)) @ '' 0x'' @ hex8 (mem E (fp + 12))
     @ '' 0x'' @ hex8 (mem E (fp + 16)) @ '' 0x'' @ hex8 (mem E (fp + 20)) @ ''\<newline>''"

definition symbol_line :: "env \<Rightarrow> u32 \<Rightarrow> string" where
  "symbol_line E fp =
     (let eip = mem E (fp + 4); info = debuginfo_eip E eip in
      ''    '' @ eip_file info @ '':'' @ dec (eip_line info) @ '': ''
      @ map (eip_fn_name info) [0 ..< nat (eip_fn_namelen info)]
      @ ''+'' @ dec (sint (eip - eip_fn_addr info)) @ '' ('' @ dec (eip_fn_narg info)
      @ '')\<newline>'')"

definition frame_reads :: "u32 \<Rightarrow> u32 list" where
  "frame_reads fp = [fp + 4, fp + 8, fp + 12, fp + 16, fp + 20, fp + 4, fp + 4, fp]"

section \<open>A machine to run the monitor on\<close>

text \<open>
  The flag masks of the x86 page table entry and a small address space: the page
  at \<open>0x1000\<close> is mapped to the frame at \<open>0x00123000\<close> (present, writable, user,
  accessed, dirty), the page at \<open>0x2000\<close> to a frame beyond the 32768 pages of
  physical memory, and nothing else is mapped.
\<close>

definition x86_mmu :: mmu where
  "x86_mmu = \<lparr>PTE_P = 0x001, PTE_W = 0x002, PTE_U = 0x004, PTE_PWT = 0x008, PTE_PCD = 0x010,
              PTE_A = 0x020, PTE_D = 0x040, PTE_PS = 0x080, PTE_G = 0x100\<rparr>"

definition example_pages :: "u32 \<Rightarrow> u32 option" where
  "example_pages va =
     (if va = 0x1000 then Some 0x00123067
      else if va = 0x2000 then Some 0xFFFFF003
      else None)"

text \<open>
  Modelled from the spec: \<^verbatim>\<open>strtol\<close> with base 0 (\<^verbatim>\<open>lib/string.c\<close> is not part of the
  sources at hand). It "parses each argument as an integer accepting standard base
  prefixes (hexadecimal 0x, octal 0, else decimal)", after optional blanks and an
  optional sign as C's \<^verbatim>\<open>strtol\<close> does, and stops at the first character that is
  not a digit of the base. The result is the value and the number of characters
  consumed.
\<close>

definition digit_of :: "char \<Rightarrow> nat option" where
  "digit_of c =
     (let n = (of_char c :: nat) in
      if 48 \<le> n \<and> n \<le> 57 then Some (n - 48)
      else if 97 \<le> n \<and> n \<le> 122 then Some (n - 97 + 10)
      else if 65 \<le> n \<and> n \<le> 90 then Some (n - 65 + 10)
      else None)"

fun strtol_digits :: "nat \<Rightarrow> string \<Rightarrow> int \<Rightarrow> int \<times> string" where
  "strtol_digits base [] val = (val, [])"
| "strtol_digits base (c # cs) val =
     (case digit_of c of
        None \<Rightarrow> (val, c # cs)
      | Some d \<Rightarrow> if d < base then strtol_digits base cs (val * int base + int d) else (val, c # cs))"

definition strtol_model :: "string \<Rightarrow> int \<times> nat" where
  "strtol_model s =
     (let s1 = dropWhile (\<lambda>c. c = CHR '' '' \<or> c = CHR 0x09) s;
          neg = (s1 \<noteq> [] \<and> hd s1 = CHR ''-'');
          s2 = (if s1 \<noteq> [] \<and> (hd s1 = CHR ''+'' \<or> hd s1 = CHR ''-'') then tl s1 else s1);
          hex = (length s2 \<ge> 2 \<and> s2 ! 0 = CHR ''0'' \<and> s2 ! 1 = CHR ''x'');
          oct = (\<not> hex \<and> s2 \<noteq> [] \<and> hd s2 = CHR ''0'');
          base = (if hex then 16 else if oct then 8 else 10);
          s3 = (if hex then drop 2 s2 else if oct then tl s2 else s2);
          r = strtol_digits base s3 0
      in (if neg then - fst r else fst r, length s - length (snd r)))"

text \<open>
  A memory layout, a stack of three frames whose last saved frame pointer is
  zero, and a debug-information resolver that knows no symbol.
\<close>

fun example_layout :: "layout_const \<Rightarrow> u32" where
  "example_layout KERNBASE = 0xF0000000"
| "example_layout IOPHYSMEM = 0x0A0000"
| "example_layout EXTPHYSMEM = 0x100000"
| "example_layout KSTACKTOP = 0xF0000000"
| "example_layout KSTKSIZE = 0x8000"
| "example_layout KSTKGAP = 0x8000"
| "example_layout MMIOLIM = 0xEFC00000"
| "example_layout MMIOBASE = 0xEF800000"
| "example_layout ULIM = 0xEF800000"
| "example_layout UVPT = 0xEF400000"
| "example_layout UPAGES = 0xEF000000"
| "example_layout UENVS = 0xEEC00000"
| "example_layout UTOP = 0xEEC00000"
| "example_layout UXSTACKTOP = 0xEEC00000"
| "example_layout USTACKTOP = 0xEEBFE000"
| "example_layout UTEXT = 0x800000"
| "example_layout UTEMP = 0x400000"
| "example_layout PFTEMP = 0x7FF000"
| "example_layout USTABDATA = 0x200000"

definition example_stack :: "u32 \<Rightarrow> u32" where
  "example_stack a =
     (if a = 0xF010FF38 then 0xF010FF58
      else if a = 0xF010FF3C then 0xF0100A10
      else if a = 0xF010FF58 then 0xF010FF78
      else if a = 0xF010FF5C then 0xF0100068
      else if a = 0xF010FF78 then 0
      else if a = 0xF010FF7C then 0xF010003E
      else 0)"

definition no_symbols :: "u32 \<Rightarrow> eipdebuginfo" where
  "no_symbols eip =
     \<lparr>eip_file = ''<unknown>'', eip_line = 0,
      eip_fn_name = (\<lambda>i. if i < 9 then ''<unknown>'' ! i else CHR 0x00),
      eip_fn_namelen = 9, eip_fn_addr = eip, eip_fn_narg = 0\<rparr>"

definition example_env :: env where
  "example_env =
     \<lparr>page_table_entry = example_pages, npages = 0x8000, strtol = strtol_model,
      read_ebp = 0xF010FF38, mem = example_stack, debuginfo_eip = no_symbols,
      layout = example_layout, mmu = x86_mmu,
      syms = \<lparr>sym_start = 0x0010000C, sym_entry = 0xF010000C, sym_etext = 0xF0101A75,
              sym_edata = 0xF0112300, sym_end = 0xF0112960\<rparr>\<rparr>"

definition empty_state :: mon_state where
  "empty_state = \<lparr>console = [], pte_queries = [], mem_reads = []\<rparr>"

text \<open>
  A stack whose only frame has itself as its caller.
\<close>

definition self_linked_stack :: "u32 \<Rightarrow> u32" where
  "self_linked_stack a = (if a = 0xF010FF38 then 0xF010FF38 else 0)"

section \<open>The page-mapping inspector: one page\<close>

lemma join_Cons: "join sep (x # xs) = x @ (if xs = [] then [] else sep @ join sep xs)"
  by (cases xs) auto

lemma show_flag_pair:
  "show_flag pte flag nm (c, st) =
     (if pte AND flag \<noteq> 0 then (1, cprintf ((if c \<noteq> 0 then '','' else []) @ nm) st) else (c, st))"
  by (simp add: show_flag_def cprintf_sep_def)

lemma show_flags_foldl:
  "foldl (\<lambda>cs (flag, nm). show_flag pte flag nm cs) (c, st) tbl =
     (let names = map snd (filter (\<lambda>(flag, nm). pte AND flag \<noteq> 0) tbl) in
      if names = [] then (c, st)
      else (1, cprintf ((if c \<noteq> 0 then '','' else []) @ join '','' names) st))"
proof (induction tbl arbitrary: c st)
  case Nil
  then show ?case by simp
next
  case (Cons a tbl)
  obtain flag nm where a: "a = (flag, nm)" by (cases a)
  show ?case
    by (simp add: a show_flag_pair Cons.IH cprintf_def Let_def join_Cons)
qed

lemma show_page_details_eq:
  "show_page_details E va st =
     st\<lparr>console := console st @ page_line E va, pte_queries := pte_queries st @ [va]\<rparr>"
proof (cases "page_table_entry E va")
  case None
  then show ?thesis
    by (simp add: show_page_details_def page_line_def cprintf_def)
next
  case (Some pte)
  have chain: "show_flag pte (PTE_G (mmu E)) ''G'' (show_flag pte (PTE_PS (mmu E)) ''PS''
        (show_flag pte (PTE_D (mmu E)) ''D'' (show_flag pte (PTE_A (mmu E)) ''A''
        (show_flag pte (PTE_PCD (mmu E)) ''PCD'' (show_flag pte (PTE_PWT (mmu E)) ''PWT''
        (show_flag pte (PTE_U (mmu E)) ''U'' (show_flag pte (PTE_W (mmu E)) ''W''
        (show_flag pte (PTE_P (mmu E)) ''P'' cs))))))))
      = foldl (\<lambda>cs (flag, nm). show_flag pte flag nm cs) cs (flag_table E)" for cs
    by (simp add: flag_table_def)
  show ?thesis
    unfolding show_page_details_def Let_def Some option.case chain
    by (simp add: show_flags_foldl page_line_def Some set_flag_names_def cprintf_def Let_def)
qed

text \<open>
  C6. For a page with a translation present, the inspector prints
  \<open>va 0x<addr> -> pa 0x<phys>\<close>, then in brackets the mnemonics of exactly the
  flags that are set in the entry, in the fixed order P, W, U, PWT, PCD, A, D, PS,
  G, joined by commas with no comma after the last one.
\<close>

theorem show_page_details_flag_list:
  assumes "page_table_entry E va = Some pte"
  shows "console (show_page_details E va st) =
           console st @ ''va 0x'' @ hex8 va @ '' -> pa 0x'' @ hex8 (PTE_ADDR pte) @ '' [''
           @ join '','' (map snd (filter (\<lambda>(flag, nm). pte AND flag \<noteq> 0)
                [(PTE_P (mmu E), ''P''), (PTE_W (mmu E), ''W''), (PTE_U (mmu E), ''U''),
                 (PTE_PWT (mmu E), ''PWT''), (PTE_PCD (mmu E), ''PCD''), (PTE_A (mmu E), ''A''),
                 (PTE_D (mmu E), ''D''), (PTE_PS (mmu E), ''PS''), (PTE_G (mmu E), ''G'')]))
           @ '']''
           @ (if PGNUM (PTE_ADDR pte) \<ge> npages E then '' (no physical memory present)'' else [])
           @ ''\<newline>''"
  using assms
  by (simp add: show_page_details_eq page_line_def set_flag_names_def flag_table_def)

theorem show_page_details_flag_list_witness:
  "page_table_entry example_env 0x1000 = Some 0x00123067
   \<and> console (show_page_details example_env 0x1000 empty_state)
       = ''va 0x00001000 -> pa 0x00123000 [P,W,U,A,D]\<newline>''"
proof -
  have h: "page_table_entry example_env 0x1000 = Some 0x00123067"
    by (simp add: example_env_def example_pages_def)
  show ?thesis
    using h show_page_details_flag_list [OF h, of empty_state]
    by (simp add: example_env_def x86_mmu_def empty_state_def hex8_def hexdigit_def
        PTE_ADDR_def PGNUM_def)
qed

text \<open>
  C7. For a page without a translation the line is \<open>va 0x<addr> -> unmapped\<close>. For
  a page with a translation whose physical frame number is at least the number of
  managed physical pages, the line carries the suffix
  \<open> (no physical memory present)\<close> after the closing bracket.
\<close>

theorem show_page_details_unmapped_and_absent_memory:
  "(page_table_entry E va = None \<longrightarrow>
      console (show_page_details E va st)
        = console st @ ''va 0x'' @ hex8 va @ '' -> unmapped\<newline>'')
   \<and> (page_table_entry E va = Some pte \<and> npages E \<le> PGNUM (PTE_ADDR pte) \<longrightarrow>
      console (show_page_details E va st)
        = console st @ ''va 0x'' @ hex8 va @ '' -> pa 0x'' @ hex8 (PTE_ADDR pte) @ '' [''
          @ join '','' (set_flag_names E pte) @ '']'' @ '' (no physical memory present)''
          @ ''\<newline>'')"
  by (simp add: show_page_details_eq page_line_def)

theorem show_page_details_unmapped_and_absent_memory_witness:
  "page_table_entry example_env 0x3000 = None
   \<and> console (show_page_details example_env 0x3000 empty_state)
       = ''va 0x00003000 -> unmapped\<newline>''
   \<and> page_table_entry example_env 0x2000 = Some 0xFFFFF003
   \<and> npages example_env \<le> PGNUM (PTE_ADDR 0xFFFFF003)
   \<and> console (show_page_details example_env 0x2000 empty_state)
       = ''va 0x00002000 -> pa 0xfffff000 [P,W] (no physical memory present)\<newline>''"
proof -
  have h1: "page_table_entry example_env 0x3000 = None"
    by (simp add: example_env_def example_pages_def)
  have h2: "page_table_entry example_env 0x2000 = Some 0xFFFFF003"
    by (simp add: example_env_def example_pages_def)
  have h3: "npages example_env \<le> PGNUM (PTE_ADDR 0xFFFFF003)"
    by (simp add: example_env_def PTE_ADDR_def PGNUM_def)
  have flags: "set_flag_names example_env 0xFFFFF003 = [''P'', ''W'']"
    by (simp add: set_flag_names_def flag_table_def example_env_def x86_mmu_def)
  show ?thesis
    using h1 h2 h3
      show_page_details_unmapped_and_absent_memory [of example_env "0x3000" empty_state]
      show_page_details_unmapped_and_absent_memory [of example_env "0x2000" empty_state "0xFFFFF003"]
    by (simp add: flags empty_state_def hex8_def hexdigit_def PTE_ADDR_def)
qed

section \<open>The constant resolver\<close>

lemma get_va_ref_point_table: "get_va_ref_point E nm = map_of (constant_table E) nm"
  unfolding get_va_ref_point_def constant_table_def strcmp_def
  by simp

lemma constant_table_names:
  "map fst (constant_table E) =
     [''KERNBASE'', ''IOPHYSMEM'', ''EXTPHYSMEM'', ''KSTACKTOP'', ''KSTKSIZE'', ''KSTKGAP'',
      ''MMIOLIM'', ''MMIOBASE'', ''ULIM'', ''UVPT'', ''UPAGES'', ''UENVS'', ''UTOP'',
      ''UXSTACKTOP'', ''USTACKTOP'', ''UTEXT'', ''UTEMP'', ''PFTEMP'', ''USTABDATA'']"
  by (simp add: constant_table_def)

text \<open>
  C8. \<^verbatim>\<open>memconst\<close> wants exactly one argument (\<open>argv\<close> counts the command name,
  so its length is 2). For a name of the constant table it prints
  \<open><name>: 0x<value>\<close> and returns 0; for a name that is not in the table it prints
  a message with the name and returns \<open>-1\<close>; for every other number of arguments
  it prints an error and returns \<open>-1\<close>, and the result does not depend on the
  table: no lookup takes place.
\<close>

theorem mon_memconst_contract:
  "(length argv = 2 \<and> map_of (constant_table E) (argv ! 1) = Some v \<longrightarrow>
      mon_memconst E argv st
        = Some (0, st\<lparr>console := console st @ argv ! 1 @ '': 0x'' @ hex8 v @ ''\<newline>''\<rparr>))
   \<and> (length argv = 2 \<and> argv ! 1 \<notin> set (map fst (constant_table E)) \<longrightarrow>
      mon_memconst E argv st
        = Some (- 1, st\<lparr>console := console st @ ''memconst: unknown memory constant ''
                                      @ squote @ argv ! 1 @ squote @ ''\<newline>''\<rparr>))
   \<and> (length argv \<noteq> 2 \<longrightarrow>
      (\<forall>E'. mon_memconst E' argv st
        = Some (- 1, st\<lparr>console := console st @ ''memconst expects a single argument\<newline>''\<rparr>)))"
proof (intro conjI impI allI)
  assume "length argv = 2 \<and> map_of (constant_table E) (argv ! 1) = Some v"
  then show "mon_memconst E argv st
        = Some (0, st\<lparr>console := console st @ argv ! 1 @ '': 0x'' @ hex8 v @ ''\<newline>''\<rparr>)"
    by (simp add: mon_memconst_def get_va_ref_point_table cprintf_def)
next
  assume a: "length argv = 2 \<and> argv ! 1 \<notin> set (map fst (constant_table E))"
  then have "map_of (constant_table E) (argv ! 1) = None"
    by (simp add: map_of_eq_None_iff)
  with a show "mon_memconst E argv st
        = Some (- 1, st\<lparr>console := console st @ ''memconst: unknown memory constant ''
                                      @ squote @ argv ! 1 @ squote @ ''\<newline>''\<rparr>)"
    by (simp add: mon_memconst_def get_va_ref_point_table cprintf_def)
next
  fix E'
  assume "length argv \<noteq> 2"
  then show "mon_memconst E' argv st
        = Some (- 1, st\<lparr>console := console st @ ''memconst expects a single argument\<newline>''\<rparr>)"
    by (simp add: mon_memconst_def cprintf_def)
qed

theorem mon_memconst_contract_witness:
  "mon_memconst example_env [''memconst'', ''KERNBASE''] empty_state
     = Some (0, empty_state\<lparr>console := ''KERNBASE: 0xf0000000\<newline>''\<rparr>)
   \<and> mon_memconst example_env [''memconst'', ''bogus''] empty_state
     = Some (- 1, empty_state\<lparr>console := ''memconst: unknown memory constant '' @ squote
                                            @ ''bogus'' @ squote @ ''\<newline>''\<rparr>)
   \<and> mon_memconst example_env [''memconst''] empty_state
     = Some (- 1, empty_state\<lparr>console := ''memconst expects a single argument\<newline>''\<rparr>)
   \<and> mon_memconst example_env [''memconst'', ''UTOP'', ''ULIM''] empty_state
     = Some (- 1, empty_state\<lparr>console := ''memconst expects a single argument\<newline>''\<rparr>)"
proof -
  have t: "map_of (constant_table example_env) ''KERNBASE'' = Some 0xF0000000"
    by (simp add: constant_table_def example_env_def)
  have u: "''bogus'' \<notin> set (map fst (constant_table example_env))"
    by (simp add: constant_table_names)
  have h: "hex8 0xF0000000 = ''f0000000''"
    by (simp add: hex8_def hexdigit_def)
  show ?thesis
    using t u
      mon_memconst_contract [of "[''memconst'', ''KERNBASE'']" example_env "0xF0000000" empty_state]
      mon_memconst_contract [of "[''memconst'', ''bogus'']" example_env _ empty_state]
      mon_memconst_contract [of "[''memconst'']" example_env _ empty_state]
      mon_memconst_contract [of "[''memconst'', ''UTOP'', ''ULIM'']" example_env _ empty_state]
    by (simp add: h empty_state_def)
qed

section \<open>The tokenizer\<close>

lemma fields_not_Nil: "fields s \<noteq> []"
  by (induction s) (auto split: list.splits)

lemma runs_Nil: "runs [] = []"
  by (simp add: runs_def)

lemma runs_whitespace_Cons: "c \<in> set WHITESPACE \<Longrightarrow> runs (c # cs) = runs cs"
  by (simp add: runs_def)

lemma runs_other_Cons:
  assumes "c \<notin> set WHITESPACE"
  shows "runs (c # cs) =
     (if cs = [] \<or> hd cs \<in> set WHITESPACE then [c] # runs cs
      else (c # hd (runs cs)) # tl (runs cs))"
proof (cases cs)
  case Nil
  with assms show ?thesis by (simp add: runs_def)
next
  case (Cons d ds)
  obtain f fs where f: "fields ds = f # fs"
    using fields_not_Nil [of ds] by (cases "fields ds") auto
  from assms show ?thesis
    by (simp add: runs_def Cons f)
qed

text \<open>
  Three facts that fix \<open>runs\<close>: a line without whitespace is one run (or none if
  it is empty), whitespace between two parts separates their runs, and every run
  is a non-empty string without whitespace.
\<close>

lemma fields_no_whitespace: "set s \<inter> set WHITESPACE = {} \<Longrightarrow> fields s = [s]"
  by (induction s) auto

lemma runs_no_whitespace:
  "set s \<inter> set WHITESPACE = {} \<Longrightarrow> runs s = (if s = [] then [] else [s])"
  by (simp add: runs_def fields_no_whitespace)

lemma fields_append_whitespace:
  "w \<in> set WHITESPACE \<Longrightarrow> fields (a @ w # b) = fields a @ fields b"
proof (induction a)
  case Nil
  then show ?case by simp
next
  case (Cons c a)
  then show ?case
    using fields_not_Nil [of a] by (cases "fields a") auto
qed

lemma runs_append_whitespace:
  "w \<in> set WHITESPACE \<Longrightarrow> runs (a @ w # b) = runs a @ runs b"
  by (simp add: runs_def fields_append_whitespace)

lemma fields_whitespace_free: "f \<in> set (fields s) \<Longrightarrow> set f \<inter> set WHITESPACE = {}"
proof (induction s arbitrary: f)
  case Nil
  then show ?case by simp
next
  case (Cons c s)
  obtain g gs where g: "fields s = g # gs"
    using fields_not_Nil [of s] by (cases "fields s") auto
  show ?case
  proof (cases "c \<in> set WHITESPACE")
    case True
    with Cons show ?thesis by auto
  next
    case False
    with Cons.prems g have "f = c # g \<or> f \<in> set gs" by auto
    then show ?thesis
    proof
      assume "f = c # g"
      moreover have "set g \<inter> set WHITESPACE = {}"
        using Cons.IH [of g] g by simp
      ultimately show ?thesis using False by auto
    next
      assume "f \<in> set gs"
      then show ?thesis using Cons.IH [of f] g by simp
    qed
  qed
qed

lemma runs_whitespace_free:
  "r \<in> set (runs s) \<Longrightarrow> r \<noteq> [] \<and> set r \<inter> set WHITESPACE = {}"
  by (auto simp: runs_def dest: fields_whitespace_free)

lemma runs_empty_iff: "runs s = [] \<longleftrightarrow> set s \<subseteq> set WHITESPACE"
proof (induction s)
  case Nil
  then show ?case by (simp add: runs_Nil)
next
  case (Cons c s)
  show ?case
  proof (cases "c \<in> set WHITESPACE")
    case True
    with Cons show ?thesis by (simp add: runs_whitespace_Cons)
  next
    case False
    then show ?thesis by (auto simp: runs_other_Cons)
  qed
qed

subsection \<open>The loops of the tokenizer\<close>

lemma runs_gobble_whitespace: "runs (gobble_whitespace buf) = runs buf"
  by (induction buf) (auto simp: strchr_def runs_whitespace_Cons)

lemma gobble_whitespace_hd:
  "gobble_whitespace buf \<noteq> [] \<Longrightarrow> hd (gobble_whitespace buf) \<notin> set WHITESPACE"
  by (induction buf) (auto simp: strchr_def)

lemma gobble_whitespace_Nil: "gobble_whitespace buf = [] \<longleftrightarrow> set buf \<subseteq> set WHITESPACE"
  by (induction buf) (auto simp: strchr_def)

lemma scan_past_arg_hd:
  "scan_past_arg buf \<noteq> [] \<Longrightarrow> hd (scan_past_arg buf) \<in> set WHITESPACE"
  by (induction buf) (auto simp: strchr_def)

lemma runs_scan_past_arg:
  "buf \<noteq> [] \<Longrightarrow> hd buf \<notin> set WHITESPACE \<Longrightarrow>
   runs buf = take (length buf - length (scan_past_arg buf)) buf # runs (scan_past_arg buf)"
proof (induction buf)
  case Nil
  then show ?case by simp
next
  case (Cons c cs)
  then have c: "c \<notin> set WHITESPACE" by simp
  have le: "length (scan_past_arg cs) \<le> length cs"
    by (rule length_scan_past_arg)
  show ?case
  proof (cases "cs = [] \<or> hd cs \<in> set WHITESPACE")
    case True
    then have "scan_past_arg cs = cs"
      by (cases cs) (auto simp: strchr_def)
    with c True show ?thesis
      by (simp add: runs_other_Cons strchr_def)
  next
    case False
    then have ih: "runs cs = take (length cs - length (scan_past_arg cs)) cs # runs (scan_past_arg cs)"
      using Cons.IH by simp
    from c False le show ?thesis
      by (simp add: runs_other_Cons strchr_def ih Suc_diff_le)
  qed
qed

lemma parse_args_runs:
  "length argv \<le> 15 \<Longrightarrow>
   parse_args buf argv =
     (if length argv + length (runs buf) \<le> 15 then Parsed (argv @ runs buf) else Too_many)"
proof (induction buf argv rule: parse_args.induct)
  case (1 buf argv)
  define buf1 where "buf1 = gobble_whitespace buf"
  define buf2 where "buf2 = scan_past_arg buf1"
  define tok where "tok = take (length buf1 - length buf2) buf1"
  have r1: "runs buf = runs buf1"
    by (simp add: buf1_def runs_gobble_whitespace)
  show ?case
  proof (cases "buf1 = []")
    case True
    with r1 "1.prems" show ?thesis
      by (subst parse_args.simps) (simp add: buf1_def [symmetric] runs_Nil)
  next
    case False
    have hd1: "hd buf1 \<notin> set WHITESPACE"
      using False gobble_whitespace_hd [of buf] by (simp add: buf1_def)
    have r2: "runs buf = tok # runs buf2"
      using runs_scan_past_arg [OF False hd1] by (simp add: r1 tok_def buf2_def)
    show ?thesis
    proof (cases "length argv = 15")
      case True
      with False r2 show ?thesis
        by (subst parse_args.simps) (simp add: buf1_def [symmetric] MAXARGS_def)
    next
      case ne: False
      with "1.prems" have len: "length (argv @ [tok]) \<le> 15" by simp
      have ih: "parse_args buf2 (argv @ [tok]) =
          (if length (argv @ [tok]) + length (runs buf2) \<le> 15
           then Parsed ((argv @ [tok]) @ runs buf2) else Too_many)"
        using "1.IH" [of buf1 buf2] False ne len
        by (simp add: buf1_def buf2_def tok_def MAXARGS_def)
      have "parse_args buf argv = parse_args buf2 (argv @ [tok])"
        using False ne
        by (subst parse_args.simps)
          (simp add: buf1_def [symmetric] buf2_def [symmetric] tok_def [symmetric] MAXARGS_def Let_def)
      with ih r2 show ?thesis by simp
    qed
  qed
qed

section \<open>The dispatcher and the interpreter loop\<close>

lemma dec_MAXARGS: "dec (int MAXARGS) = ''16''"
  by (simp add: dec_def MAXARGS_def dec_nat.simps hexdigit_def)

lemma runcmd_with_too_many:
  "15 < length (runs buf) \<Longrightarrow>
   runcmd_with call cmds buf st
     = Some (0, st\<lparr>console := console st @ ''Too many arguments (max 16)\<newline>''\<rparr>)"
  by (simp add: runcmd_with_def parse_args_runs dec_MAXARGS cprintf_def)

lemma runcmd_with_lookup:
  "length (runs buf) \<le> 15 \<Longrightarrow> runs buf \<noteq> [] \<Longrightarrow>
   runcmd_with call cmds buf st = lookup_command call cmds (runs buf) st"
  by (simp add: runcmd_with_def parse_args_runs)

lemma lookup_command_unknown:
  "argv ! 0 \<notin> set (map name cmds) \<Longrightarrow>
   lookup_command call cmds argv st
     = Some (0, st\<lparr>console := console st @ ''Unknown command '' @ squote @ argv ! 0 @ squote
                                  @ ''\<newline>''\<rparr>)"
  by (induction cmds) (auto simp: strcmp_def cprintf_def)

lemma command_names:
  "map name commands = [''help'', ''kerninfo'', ''backtrace'', ''pagemappings'', ''memconst'']"
  by (simp add: commands_def)

lemma lookup_pagemappings:
  "argv ! 0 = ''pagemappings'' \<Longrightarrow>
   lookup_command (invoke E) commands argv st = mon_pagemappings E argv st"
  by (simp add: commands_def strcmp_def)

lemma lookup_memconst:
  "argv ! 0 = ''memconst'' \<Longrightarrow>
   lookup_command (invoke E) commands argv st = mon_memconst E argv st"
  by (simp add: commands_def strcmp_def)

lemma monitor_loop_continue:
  "runcmd E buf st = Some (r, st') \<Longrightarrow> 0 \<le> r \<Longrightarrow>
   monitor_loop E (Some buf # inputs) st = monitor_loop E inputs st'"
  by simp

lemma monitor_loop_exit:
  "runcmd E buf st = Some (r, st') \<Longrightarrow> r < 0 \<Longrightarrow>
   monitor_loop E (Some buf # inputs) st = Some (Exited st')"
  by simp

text \<open>
  C4. The tokenizer produces the maximal non-whitespace runs of the line, in
  order and verbatim, whenever there are at most 15 of them. A line of whitespace
  only has no run; for it \<^verbatim>\<open>runcmd\<close> returns 0 and leaves the state as it is,
  whatever the table and its handlers are: nothing is looked up.
\<close>

theorem tokenizer_runs:
  "(length (runs line) \<le> 15 \<longrightarrow> parse_args line [] = Parsed (runs line))
   \<and> (set line \<subseteq> set WHITESPACE \<longrightarrow>
        parse_args line [] = Parsed []
        \<and> (\<forall>call cmds. runcmd_with call cmds line st = Some (0, st))
        \<and> runcmd E line st = Some (0, st))"
proof (intro conjI impI allI)
  assume "length (runs line) \<le> 15"
  then show "parse_args line [] = Parsed (runs line)"
    by (simp add: parse_args_runs)
next
  assume ws: "set line \<subseteq> set WHITESPACE"
  then have r: "runs line = []"
    by (simp add: runs_empty_iff)
  then show p: "parse_args line [] = Parsed []"
    by (simp add: parse_args_runs)
  show "runcmd_with call cmds line st = Some (0, st)" for call cmds
    by (simp add: runcmd_with_def p)
  then show "runcmd E line st = Some (0, st)"
    by (simp add: runcmd_def)
qed

lemma example_line_runs: "runs ''  memconst   KERNBASE '' = [''memconst'', ''KERNBASE'']"
  by (simp add: runs_def WHITESPACE_def)

lemma blank_line_whitespace:
  "set [CHR '' '', CHR 0x09, CHR '' '', CHR 0x0D, CHR ''\<newline>''] \<subseteq> set WHITESPACE"
  by (simp add: WHITESPACE_def)

theorem tokenizer_runs_witness:
  "length (runs ''  memconst   KERNBASE '') \<le> 15
   \<and> parse_args ''  memconst   KERNBASE '' [] = Parsed [''memconst'', ''KERNBASE'']
   \<and> set [CHR '' '', CHR 0x09, CHR '' '', CHR 0x0D, CHR ''\<newline>''] \<subseteq> set WHITESPACE
   \<and> parse_args [CHR '' '', CHR 0x09, CHR '' '', CHR 0x0D, CHR ''\<newline>''] [] = Parsed []
   \<and> runcmd example_env [CHR '' '', CHR 0x09, CHR '' '', CHR 0x0D, CHR ''\<newline>''] empty_state
       = Some (0, empty_state)"
  using tokenizer_runs [of "''  memconst   KERNBASE ''" empty_state example_env]
    tokenizer_runs [of "[CHR '' '', CHR 0x09, CHR '' '', CHR 0x0D, CHR ''\<newline>'']"
      empty_state example_env]
    blank_line_whitespace
  by (simp add: example_line_runs)

text \<open>
  C5. A line with more than 15 tokens is not tokenized to the end: \<^verbatim>\<open>runcmd\<close>
  prints \<open>Too many arguments (max 16)\<close> and returns 0 whatever the table and its
  handlers are, so no command is looked up or run, and the interpreter loop goes
  on to the next line.
\<close>

theorem too_many_arguments_continues:
  assumes "15 < length (runs line)"
  shows "parse_args line [] = Too_many
    \<and> (\<forall>call cmds. runcmd_with call cmds line st
          = Some (0, st\<lparr>console := console st @ ''Too many arguments (max 16)\<newline>''\<rparr>))
    \<and> runcmd E line st
          = Some (0, st\<lparr>console := console st @ ''Too many arguments (max 16)\<newline>''\<rparr>)
    \<and> monitor_loop E (Some line # inputs) st
          = monitor_loop E inputs
              (st\<lparr>console := console st @ ''Too many arguments (max 16)\<newline>''\<rparr>)"
proof -
  have p: "parse_args line [] = Too_many"
    using assms by (simp add: parse_args_runs)
  have r: "runcmd E line st
      = Some (0, st\<lparr>console := console st @ ''Too many arguments (max 16)\<newline>''\<rparr>)"
    using assms by (simp add: runcmd_def runcmd_with_too_many)
  show ?thesis
    using assms p r by (simp add: runcmd_with_too_many)
qed

lemma sixteen_tokens: "length (runs ''a b c d e f g h i j k l m n o p'') = 16"
  by (simp add: runs_def WHITESPACE_def)

theorem too_many_arguments_continues_witness:
  "15 < length (runs ''a b c d e f g h i j k l m n o p'')
   \<and> parse_args ''a b c d e f g h i j k l m n o p'' [] = Too_many
   \<and> runcmd example_env ''a b c d e f g h i j k l m n o p'' empty_state
       = Some (0, empty_state\<lparr>console := ''Too many arguments (max 16)\<newline>''\<rparr>)
   \<and> monitor_loop example_env [Some ''a b c d e f g h i j k l m n o p''] empty_state
       = Some (Awaiting_input (empty_state\<lparr>console := ''Too many arguments (max 16)\<newline>''\<rparr>))"
proof -
  have h: "15 < length (runs ''a b c d e f g h i j k l m n o p'')"
    by (simp add: sixteen_tokens)
  show ?thesis
    using h too_many_arguments_continues [OF h, of empty_state example_env "[]"]
    by (simp add: empty_state_def)
qed

text \<open>
  C9. When the first token of a line is not the name of a registered command
  (names are compared character by character, so letter case counts), \<^verbatim>\<open>runcmd\<close>
  prints \<open>Unknown command '<name>'\<close> and returns 0 whatever the handlers of the
  table are, so no handler runs, and the interpreter loop goes on to the next
  line.
\<close>

theorem unknown_command_continues:
  assumes "length (runs line) \<le> 15" and "runs line \<noteq> []"
    and "hd (runs line) \<notin> set (map name cmds)"
  shows "(\<forall>call. runcmd_with call cmds line st
            = Some (0, st\<lparr>console := console st @ ''Unknown command '' @ squote
                                        @ hd (runs line) @ squote @ ''\<newline>''\<rparr>))
    \<and> (cmds = commands \<longrightarrow>
         monitor_loop E (Some line # inputs) st
           = monitor_loop E inputs
               (st\<lparr>console := console st @ ''Unknown command '' @ squote
                                @ hd (runs line) @ squote @ ''\<newline>''\<rparr>))"
proof -
  have h: "runs line ! 0 = hd (runs line)"
    using assms(2) by (simp add: hd_conv_nth)
  have r: "runcmd_with call cmds line st
            = Some (0, st\<lparr>console := console st @ ''Unknown command '' @ squote
                                        @ hd (runs line) @ squote @ ''\<newline>''\<rparr>)" for call
    using assms lookup_command_unknown [of "runs line" cmds call st]
    by (simp add: runcmd_with_lookup h)
  have "runcmd E line st
            = Some (0, st\<lparr>console := console st @ ''Unknown command '' @ squote
                                        @ hd (runs line) @ squote @ ''\<newline>''\<rparr>)"
    if "cmds = commands"
    using that r [of "invoke E"] by (simp add: runcmd_def)
  with r show ?thesis
    by simp
qed

lemma Help_runs: "runs ''Help me'' = [''Help'', ''me'']"
  by (simp add: runs_def WHITESPACE_def)

theorem unknown_command_continues_witness:
  "length (runs ''Help me'') \<le> 15 \<and> runs ''Help me'' \<noteq> []
   \<and> hd (runs ''Help me'') \<notin> set (map name commands)
   \<and> runcmd example_env ''Help me'' empty_state
       = Some (0, empty_state\<lparr>console := ''Unknown command '' @ squote @ ''Help'' @ squote
                                           @ ''\<newline>''\<rparr>)
   \<and> monitor_loop example_env [Some ''Help me'', Some ''   ''] empty_state
       = Some (Awaiting_input (empty_state\<lparr>console := ''Unknown command '' @ squote @ ''Help''
                                                         @ squote @ ''\<newline>''\<rparr>))"
proof -
  have a: "length (runs ''Help me'') \<le> 15" and b: "runs ''Help me'' \<noteq> []"
    and c: "hd (runs ''Help me'') \<notin> set (map name commands)"
    by (simp_all add: Help_runs command_names)
  have hdr: "hd (runs ''Help me'') = ''Help''"
    by (simp add: Help_runs)
  define st1 where "st1 = empty_state\<lparr>console := console empty_state @ ''Unknown command ''
    @ squote @ ''Help'' @ squote @ ''\<newline>''\<rparr>"
  note T = unknown_command_continues [OF a b c, of empty_state example_env "[Some ''   '']",
      unfolded hdr, folded st1_def]
  from T have r: "runcmd example_env ''Help me'' empty_state = Some (0, st1)"
    unfolding runcmd_def by blast
  from T have m: "monitor_loop example_env [Some ''Help me'', Some ''   ''] empty_state
      = monitor_loop example_env [Some ''   ''] st1"
    by blast
  have blank: "set ''   '' \<subseteq> set WHITESPACE"
    by (simp add: WHITESPACE_def)
  have d: "runcmd example_env ''   '' st1 = Some (0, st1)"
    by (simp add: runcmd_def runcmd_with_def parse_args_runs
        iffD2 [OF runs_empty_iff blank])
  have e: "monitor_loop example_env [Some ''   ''] st1 = Some (Awaiting_input st1)"
    by (simp add: d)
  have s: "st1 = empty_state\<lparr>console := ''Unknown command '' @ squote @ ''Help'' @ squote
                                           @ ''\<newline>''\<rparr>"
    by (simp add: st1_def empty_state_def)
  show ?thesis
    using a b c r m e unfolding s by simp
qed

section \<open>Validation failures of the command handlers\<close>

lemma mon_pagemappings_first_unparsed:
  "2 \<le> length argv \<Longrightarrow> length argv \<le> 3 \<Longrightarrow> not_fully_parsed E (argv ! 1) \<Longrightarrow>
   mon_pagemappings E argv st
     = Some (- 1, st\<lparr>console := console st
          @ ''pagemappings: expecting number as first argument, could not parse ''
          @ squote @ argv ! 1 @ squote @ ''\<newline>''\<rparr>)"
  by (simp add: mon_pagemappings_def cprintf_def)

lemma mon_pagemappings_second_unparsed:
  "length argv = 3 \<Longrightarrow> \<not> not_fully_parsed E (argv ! 1) \<Longrightarrow> not_fully_parsed E (argv ! 2) \<Longrightarrow>
   mon_pagemappings E argv st
     = Some (- 1, st\<lparr>console := console st
          @ ''pagemappings: expecting number as second argument, could not parse ''
          @ squote @ argv ! 2 @ squote @ ''\<newline>''\<rparr>)"
  by (simp add: mon_pagemappings_def cprintf_def)

lemma mon_pagemappings_bad_count:
  "length argv < 2 \<or> 3 < length argv \<Longrightarrow>
   \<exists>msg. mon_pagemappings E argv st = Some (- 1, st\<lparr>console := console st @ msg\<rparr>)"
  by (auto simp: mon_pagemappings_def cprintf_def)

lemma mon_pagemappings_invalid:
  assumes "length argv < 2 \<or> 3 < length argv \<or> not_fully_parsed E (argv ! 1)
           \<or> (length argv = 3 \<and> not_fully_parsed E (argv ! 2))"
  shows "\<exists>msg. mon_pagemappings E argv st = Some (- 1, st\<lparr>console := console st @ msg\<rparr>)"
proof (cases "length argv < 2 \<or> 3 < length argv")
  case True
  then show ?thesis by (rule mon_pagemappings_bad_count)
next
  case False
  then have len: "2 \<le> length argv" "length argv \<le> 3" by auto
  show ?thesis
  proof (cases "not_fully_parsed E (argv ! 1)")
    case True
    show ?thesis
      using mon_pagemappings_first_unparsed [OF len True, of st] by blast
  next
    case np: False
    with assms False have "length argv = 3" "not_fully_parsed E (argv ! 2)" by auto
    then show ?thesis
      using mon_pagemappings_second_unparsed [OF _ np, of st] by blast
  qed
qed

lemma mon_memconst_invalid:
  assumes "length argv \<noteq> 2 \<or> get_va_ref_point E (argv ! 1) = None"
  shows "\<exists>msg. mon_memconst E argv st = Some (- 1, st\<lparr>console := console st @ msg\<rparr>)"
  using assms by (auto simp: mon_memconst_def cprintf_def)

text \<open>
  C10. When \<^verbatim>\<open>strtol\<close> does not consume the whole of an address argument of
  \<^verbatim>\<open>pagemappings\<close>, the handler returns \<open>-1\<close> without a single call of
  \<^verbatim>\<open>page_table_entry\<close> and prints nothing but the error message; this holds for a
  bad second argument after a good first one as well.
\<close>

theorem mon_pagemappings_parse_error_no_lookup:
  assumes "2 \<le> length argv" and "length argv \<le> 3"
    and "not_fully_parsed E (argv ! 1) \<or> (length argv = 3 \<and> not_fully_parsed E (argv ! 2))"
  shows "\<exists>st'. mon_pagemappings E argv st = Some (- 1, st')
    \<and> pte_queries st' = pte_queries st
    \<and> console st' = console st @ ''pagemappings: expecting number as ''
        @ (if not_fully_parsed E (argv ! 1) then ''first'' else ''second'')
        @ '' argument, could not parse '' @ squote
        @ (if not_fully_parsed E (argv ! 1) then argv ! 1 else argv ! 2) @ squote @ ''\<newline>''"
proof (cases "not_fully_parsed E (argv ! 1)")
  case True
  with assms show ?thesis
    by (simp add: mon_pagemappings_first_unparsed)
next
  case False
  with assms have "length argv = 3" "not_fully_parsed E (argv ! 2)" by auto
  with False show ?thesis
    by (simp add: mon_pagemappings_second_unparsed)
qed

lemma strtol_model_examples:
  "strtol_model ''0x1000'' = (4096, 6)" "strtol_model ''12zz'' = (12, 2)"
  "strtol_model ''0x30z'' = (48, 4)"
  by (simp_all add: strtol_model_def digit_of_def)

theorem mon_pagemappings_parse_error_no_lookup_witness:
  "not_fully_parsed example_env ''0x30z''
   \<and> mon_pagemappings example_env [''pagemappings'', ''0x30z''] empty_state
       = Some (- 1, empty_state\<lparr>console :=
           ''pagemappings: expecting number as first argument, could not parse ''
           @ squote @ ''0x30z'' @ squote @ ''\<newline>''\<rparr>)
   \<and> \<not> not_fully_parsed example_env ''0x1000'' \<and> not_fully_parsed example_env ''12zz''
   \<and> mon_pagemappings example_env [''pagemappings'', ''0x1000'', ''12zz''] empty_state
       = Some (- 1, empty_state\<lparr>console :=
           ''pagemappings: expecting number as second argument, could not parse ''
           @ squote @ ''12zz'' @ squote @ ''\<newline>''\<rparr>)"
proof -
  have p: "not_fully_parsed example_env ''0x30z''" "\<not> not_fully_parsed example_env ''0x1000''"
    "not_fully_parsed example_env ''12zz''"
    by (simp_all add: not_fully_parsed_def example_env_def strtol_model_examples)
  have "\<exists>st'. mon_pagemappings example_env [''pagemappings'', ''0x30z''] empty_state = Some (- 1, st')
      \<and> pte_queries st' = [] \<and> console st'
        = ''pagemappings: expecting number as first argument, could not parse ''
          @ squote @ ''0x30z'' @ squote @ ''\<newline>''"
    using mon_pagemappings_parse_error_no_lookup
      [of "[''pagemappings'', ''0x30z'']" example_env empty_state] p
    by (simp add: empty_state_def)
  moreover have "\<exists>st'. mon_pagemappings example_env [''pagemappings'', ''0x1000'', ''12zz''] empty_state
        = Some (- 1, st')
      \<and> pte_queries st' = [] \<and> console st'
        = ''pagemappings: expecting number as second argument, could not parse ''
          @ squote @ ''12zz'' @ squote @ ''\<newline>''"
    using mon_pagemappings_parse_error_no_lookup
      [of "[''pagemappings'', ''0x1000'', ''12zz'']" example_env empty_state] p
    by (simp add: empty_state_def)
  ultimately show ?thesis
    using p
    by (auto simp: mon_pagemappings_def cprintf_def empty_state_def)
qed

text \<open>
  C3. A wrong number of arguments or an address that does not parse in
  \<^verbatim>\<open>pagemappings\<close>, and a wrong number of arguments or an unknown name in
  \<^verbatim>\<open>memconst\<close>, make the handler return \<open>-1\<close>. The interpreter loop stops as soon
  as \<^verbatim>\<open>runcmd\<close> returns a negative status. So a line whose tokens are such a
  command ends the loop: the lines after it are not read.
\<close>

theorem validation_failure_ends_session:
  "(length argv < 2 \<or> 3 < length argv \<or> not_fully_parsed E (argv ! 1)
      \<or> (length argv = 3 \<and> not_fully_parsed E (argv ! 2))
     \<longrightarrow> (\<exists>st'. mon_pagemappings E argv st = Some (- 1, st')))
   \<and> (length argv \<noteq> 2 \<or> get_va_ref_point E (argv ! 1) = None
     \<longrightarrow> (\<exists>st'. mon_memconst E argv st = Some (- 1, st')))
   \<and> (runcmd E line st = Some (r, st1) \<and> r < 0
     \<longrightarrow> monitor_loop E (Some line # inputs) st = Some (Exited st1))
   \<and> (runs line = argv \<and> argv \<noteq> [] \<and> length argv \<le> 15
      \<and> (hd argv = ''pagemappings''
            \<and> (length argv < 2 \<or> 3 < length argv \<or> not_fully_parsed E (argv ! 1)
                \<or> (length argv = 3 \<and> not_fully_parsed E (argv ! 2)))
          \<or> hd argv = ''memconst''
            \<and> (length argv \<noteq> 2 \<or> get_va_ref_point E (argv ! 1) = None))
     \<longrightarrow> (\<exists>st'. runcmd E line st = Some (- 1, st')
              \<and> monitor_loop E (Some line # inputs) st = Some (Exited st')))"
proof (intro conjI impI)
  assume "length argv < 2 \<or> 3 < length argv \<or> not_fully_parsed E (argv ! 1)
      \<or> (length argv = 3 \<and> not_fully_parsed E (argv ! 2))"
  then show "\<exists>st'. mon_pagemappings E argv st = Some (- 1, st')"
    using mon_pagemappings_invalid [of argv E st] by blast
next
  assume "length argv \<noteq> 2 \<or> get_va_ref_point E (argv ! 1) = None"
  then show "\<exists>st'. mon_memconst E argv st = Some (- 1, st')"
    using mon_memconst_invalid [of argv E st] by blast
next
  assume "runcmd E line st = Some (r, st1) \<and> r < 0"
  then show "monitor_loop E (Some line # inputs) st = Some (Exited st1)"
    by simp
next
  assume a: "runs line = argv \<and> argv \<noteq> [] \<and> length argv \<le> 15
      \<and> (hd argv = ''pagemappings''
            \<and> (length argv < 2 \<or> 3 < length argv \<or> not_fully_parsed E (argv ! 1)
                \<or> (length argv = 3 \<and> not_fully_parsed E (argv ! 2)))
          \<or> hd argv = ''memconst''
            \<and> (length argv \<noteq> 2 \<or> get_va_ref_point E (argv ! 1) = None))"
  then have hd0: "argv ! 0 = hd argv"
    by (simp add: hd_conv_nth)
  from a have run: "runcmd E line st = lookup_command (invoke E) commands argv st"
    by (simp add: runcmd_def runcmd_with_lookup)
  from a have "\<exists>st'. lookup_command (invoke E) commands argv st = Some (- 1, st')"
  proof (elim conjE disjE)
    assume "hd argv = ''pagemappings''" and "length argv < 2"
    then show ?thesis
      using mon_pagemappings_invalid [of argv E st] hd0
      by (simp add: lookup_pagemappings) blast
  next
    assume "hd argv = ''pagemappings''" and "3 < length argv"
    then show ?thesis
      using mon_pagemappings_invalid [of argv E st] hd0
      by (simp add: lookup_pagemappings) blast
  next
    assume "hd argv = ''pagemappings''" and "not_fully_parsed E (argv ! 1)"
    then show ?thesis
      using mon_pagemappings_invalid [of argv E st] hd0
      by (simp add: lookup_pagemappings) blast
  next
    assume "hd argv = ''pagemappings''" and "length argv = 3" and "not_fully_parsed E (argv ! 2)"
    then show ?thesis
      using mon_pagemappings_invalid [of argv E st] hd0
      by (simp add: lookup_pagemappings) blast
  next
    assume "hd argv = ''memconst''" and "length argv \<noteq> 2"
    then show ?thesis
      using mon_memconst_invalid [of argv E st] hd0
      by (simp add: lookup_memconst) blast
  next
    assume "hd argv = ''memconst''" and "get_va_ref_point E (argv ! 1) = None"
    then show ?thesis
      using mon_memconst_invalid [of argv E st] hd0
      by (simp add: lookup_memconst) blast
  qed
  then obtain st' where "runcmd E line st = Some (- 1, st')"
    using run by auto
  then show "\<exists>st'. runcmd E line st = Some (- 1, st')
      \<and> monitor_loop E (Some line # inputs) st = Some (Exited st')"
    by simp
qed

lemma failing_lines_runs:
  "runs ''pagemappings 0x30z'' = [''pagemappings'', ''0x30z'']"
  "runs ''memconst bogus'' = [''memconst'', ''bogus'']"
  by (simp_all add: runs_def WHITESPACE_def)

theorem validation_failure_ends_session_witness:
  "monitor_loop example_env [Some ''pagemappings 0x30z'', Some ''help''] empty_state
     = Some (Exited (empty_state\<lparr>console :=
         ''pagemappings: expecting number as first argument, could not parse ''
         @ squote @ ''0x30z'' @ squote @ ''\<newline>''\<rparr>))
   \<and> monitor_loop example_env [Some ''memconst bogus'', Some ''help''] empty_state
     = Some (Exited (empty_state\<lparr>console := ''memconst: unknown memory constant ''
         @ squote @ ''bogus'' @ squote @ ''\<newline>''\<rparr>))"
proof -
  have p: "not_fully_parsed example_env ''0x30z''"
    by (simp add: not_fully_parsed_def example_env_def strtol_model_examples)
  have g: "get_va_ref_point example_env ''bogus'' = None"
    by (simp add: get_va_ref_point_table constant_table_def)
  have r1: "runcmd example_env ''pagemappings 0x30z'' empty_state
      = Some (- 1, empty_state\<lparr>console :=
          ''pagemappings: expecting number as first argument, could not parse ''
          @ squote @ ''0x30z'' @ squote @ ''\<newline>''\<rparr>)"
    using p
    by (simp add: runcmd_def runcmd_with_lookup failing_lines_runs lookup_pagemappings
        mon_pagemappings_first_unparsed empty_state_def)
  have r2: "runcmd example_env ''memconst bogus'' empty_state
      = Some (- 1, empty_state\<lparr>console := ''memconst: unknown memory constant ''
          @ squote @ ''bogus'' @ squote @ ''\<newline>''\<rparr>)"
    using g
    by (simp add: runcmd_def runcmd_with_lookup failing_lines_runs lookup_memconst
        mon_memconst_def cprintf_def empty_state_def)
  have "\<exists>st'. runcmd example_env ''pagemappings 0x30z'' empty_state = Some (- 1, st')
      \<and> monitor_loop example_env [Some ''pagemappings 0x30z'', Some ''help''] empty_state
          = Some (Exited st')"
    using validation_failure_ends_session
      [of "[''pagemappings'', ''0x30z'']" example_env empty_state "''pagemappings 0x30z''" _ _
        "[Some ''help'']"] p
    by (simp add: failing_lines_runs)
  with r1 have m1: "monitor_loop example_env [Some ''pagemappings 0x30z'', Some ''help''] empty_state
      = Some (Exited (empty_state\<lparr>console :=
          ''pagemappings: expecting number as first argument, could not parse ''
          @ squote @ ''0x30z'' @ squote @ ''\<newline>''\<rparr>))"
    by auto
  have "\<exists>st'. runcmd example_env ''memconst bogus'' empty_state = Some (- 1, st')
      \<and> monitor_loop example_env [Some ''memconst bogus'', Some ''help''] empty_state
          = Some (Exited st')"
    using validation_failure_ends_session
      [of "[''memconst'', ''bogus'']" example_env empty_state "''memconst bogus''" _ _
        "[Some ''help'']"] g
    by (simp add: failing_lines_runs)
  with r2 have m2: "monitor_loop example_env [Some ''memconst bogus'', Some ''help''] empty_state
      = Some (Exited (empty_state\<lparr>console := ''memconst: unknown memory constant ''
          @ squote @ ''bogus'' @ squote @ ''\<newline>''\<rparr>))"
    by auto
  from m1 m2 show ?thesis by simp
qed

section \<open>The page-mapping inspector: the range\<close>

subsection \<open>Page arithmetic on 32-bit words\<close>

lemma mask12: "(0xFFF::u32) = mask 12"
  by (simp add: mask_eq_exp_minus_1)

lemma and_not_mask12: "(a::u32) AND NOT 0xFFF = push_bit 12 (drop_bit 12 a)"
  unfolding mask12
  by (rule bit_eqI) (auto simp: bit_simps)

lemma unat_page_floor: "unat ((a::u32) AND NOT 0xFFF) = 4096 * (unat a div 4096)"
proof -
  have "unat a < 2 ^ 32"
    using unsigned_less [of a] by simp
  then have lt: "4096 * (unat a div 4096) < 2 ^ 32"
    by simp
  have "unat (a AND NOT 0xFFF) = unat (push_bit 12 (drop_bit 12 a))"
    by (simp only: and_not_mask12)
  also have "\<dots> = take_bit 32 (push_bit 12 (drop_bit 12 (unat a)))"
    by (simp add: unsigned_push_bit_eq unat_drop_bit_eq)
  also have "\<dots> = take_bit 32 (4096 * (unat a div 4096))"
    by (simp add: push_bit_eq_mult drop_bit_eq_div mult.commute)
  also have "\<dots> = 4096 * (unat a div 4096)"
    using lt by (simp only: take_bit_nat_eq_self)
  finally show ?thesis .
qed

lemma page_aligned_le_top:
  assumes "4096 dvd unat (a::u32)"
  shows "unat a \<le> 4294963200"
proof -
  from assms obtain k where k: "unat a = 4096 * k" ..
  have "unat a < 4294967296"
    using unsigned_less [of a] by simp
  with k have "k < 1048576" by simp
  then have "k \<le> 1048575" by simp
  then have "4096 * k \<le> 4096 * 1048575" by (rule mult_le_mono2)
  with k show ?thesis by simp
qed

lemma unat_next_page:
  "unat (a + PGSIZE) = (unat a + 4096) mod 4294967296"
  by (simp add: PGSIZE_def unat_word_ariths)

lemma next_page_aligned:
  "4096 dvd unat (a::u32) \<Longrightarrow> 4096 dvd unat (a + PGSIZE)"
  by (simp add: unat_next_page dvd_mod_iff)

subsection \<open>The loop at the top of the address space\<close>

text \<open>
  When the end of the range is the last page \<open>0xFFFFF000\<close>, every page-aligned
  \<open>va_start\<close> satisfies \<^verbatim>\<open>va_start <= va_end\<close>, and \<^verbatim>\<open>va_start += PGSIZE\<close> wraps from
  \<open>0xFFFFF000\<close> to 0: the loop condition never fails. A run that returns would
  contradict this, so the loop does not return.
\<close>

lemma pagemappings_loop_Some_not_top:
  assumes "pagemappings_loop E a b st = Some y"
  shows "\<not> (unat b = 4294963200 \<and> 4096 dvd unat a)"
proof (rule pagemappings_loop.raw_induct [OF _ assms])
  fix f :: "env \<Rightarrow> u32 \<Rightarrow> u32 \<Rightarrow> mon_state \<Rightarrow> mon_state option"
  fix E :: env and va_start va_end :: u32 and st y :: mon_state
  assume IH: "\<And>E' a' b' s' y'. f E' a' b' s' = Some y'
      \<Longrightarrow> \<not> (unat b' = 4294963200 \<and> 4096 dvd unat a')"
  assume step: "(if va_start \<le> va_end
      then f E (va_start + PGSIZE) va_end (show_page_details E va_start st)
      else Some st) = Some y"
  show "\<not> (unat va_end = 4294963200 \<and> 4096 dvd unat va_start)"
  proof
    assume top: "unat va_end = 4294963200 \<and> 4096 dvd unat va_start"
    then have "unat va_start \<le> unat va_end"
      using page_aligned_le_top [of va_start] by simp
    then have "va_start \<le> va_end"
      by (simp add: word_le_nat_alt)
    with step have "f E (va_start + PGSIZE) va_end (show_page_details E va_start st) = Some y"
      by simp
    then have "\<not> (unat va_end = 4294963200 \<and> 4096 dvd unat (va_start + PGSIZE))"
      by (rule IH)
    with top show False
      by (simp add: next_page_aligned)
  qed
qed

lemma pagemappings_loop_top_page:
  assumes "4096 dvd unat va_start"
  shows "pagemappings_loop E va_start 0xFFFFF000 st = None"
proof (cases "pagemappings_loop E va_start 0xFFFFF000 st")
  case None
  then show ?thesis .
next
  case (Some y)
  then have "\<not> (unat (0xFFFFF000 :: u32) = 4294963200 \<and> 4096 dvd unat va_start)"
    by (rule pagemappings_loop_Some_not_top)
  with assms show ?thesis by simp
qed

lemma pagemappings_range_top_page:
  assumes "0xFFFFF000 \<le> va_end"
  shows "pagemappings_range E va_start va_end st = None"
proof -
  from assms have "4294963200 \<le> unat va_end"
    by (simp add: word_le_nat_alt)
  moreover have "unat va_end < 4294967296"
    using unsigned_less [of va_end] by simp
  ultimately have "unat va_end div 4096 = 1048575"
    by simp
  then have "unat (va_end AND NOT 0xFFF) = unat (0xFFFFF000 :: u32)"
    by (simp only: unat_page_floor) simp
  then have e: "va_end AND NOT 0xFFF = 0xFFFFF000"
    by (simp only: word_unat_eq_iff)
  have "4096 dvd unat (va_start AND NOT 0xFFF)"
    by (simp only: unat_page_floor) simp
  then have "pagemappings_loop E (va_start AND NOT 0xFFF) 0xFFFFF000 st = None"
    by (rule pagemappings_loop_top_page)
  then show ?thesis
    by (simp only: pagemappings_range_def e) simp
qed

subsection \<open>The loop below the top of the address space\<close>

lemma foldl_show_page_details:
  "foldl (\<lambda>s va. show_page_details E va s) st vas =
     st\<lparr>console := console st @ concat (map (page_line E) vas),
        pte_queries := pte_queries st @ vas\<rparr>"
  by (induction vas arbitrary: st) (simp_all add: show_page_details_eq)

lemma page_addresses_Suc:
  "page_addresses a (Suc n) = a # page_addresses (a + PGSIZE) n"
proof -
  have "[0 ..< Suc n] = 0 # map Suc [0 ..< n]"
    by (simp only: upt_conv_Cons [of 0 "Suc n"] map_Suc_upt)
  then show ?thesis
    by (simp add: page_addresses_def comp_def distrib_left add.assoc del: upt_Suc)
qed

lemma pagemappings_loop_pages:
  assumes "unat b < 4294963200"
  shows "unat a + 4096 * n = unat b + 4096 \<Longrightarrow>
    pagemappings_loop E a b st
      = Some (foldl (\<lambda>s va. show_page_details E va s) st (page_addresses a n))"
proof (induction n arbitrary: a st)
  case 0
  then have "\<not> a \<le> b"
    by (simp add: word_le_nat_alt)
  then show ?case
    by (subst pagemappings_loop.simps) (simp add: page_addresses_def)
next
  case (Suc n)
  then have le: "a \<le> b"
    by (simp add: word_le_nat_alt)
  from Suc.prems assms have "unat a + 4096 < 4294967296"
    by simp
  then have nx: "unat (a + PGSIZE) = unat a + 4096"
    by (simp add: unat_next_page)
  have "pagemappings_loop E (a + PGSIZE) b (show_page_details E a st)
      = Some (foldl (\<lambda>s va. show_page_details E va s) (show_page_details E a st)
          (page_addresses (a + PGSIZE) n))"
    using Suc.prems by (intro Suc.IH) (simp add: nx)
  with le show ?case
    by (subst pagemappings_loop.simps) (simp add: page_addresses_Suc)
qed

lemma pagemappings_range_below_top:
  assumes "va_end < 0xFFFFF000"
  shows "pagemappings_range E va_start va_end st =
    Some (0, st\<lparr>console := console st
               @ concat (map (page_line E)
                   (pages_between (va_start AND NOT 0xFFF) (va_end AND NOT 0xFFF))),
             pte_queries := pte_queries st
               @ pages_between (va_start AND NOT 0xFFF) (va_end AND NOT 0xFFF)\<rparr>)"
proof -
  define s where "s = va_start AND NOT 0xFFF"
  define e where "e = va_end AND NOT 0xFFF"
  have us: "unat s = 4096 * (unat va_start div 4096)"
    and ue: "unat e = 4096 * (unat va_end div 4096)"
    by (simp_all only: s_def e_def unat_page_floor)
  from assms have "unat va_end < 4294963200"
    by (simp add: word_less_nat_alt)
  then have "unat va_end div 4096 < 1048575"
    by simp
  then have below: "unat e < 4294963200"
    by (simp add: ue)
  have "pagemappings_loop E s e st
      = Some (foldl (\<lambda>s va. show_page_details E va s) st (pages_between s e))"
  proof (cases "s \<le> e")
    case True
    then have le: "unat va_start div 4096 \<le> unat va_end div 4096"
      by (simp add: word_le_nat_alt us ue)
    have n: "(unat e - unat s) div 4096 = unat va_end div 4096 - unat va_start div 4096"
      by (simp add: us ue diff_mult_distrib2 [symmetric])
    have "unat s + 4096 * Suc ((unat e - unat s) div 4096) = unat e + 4096"
      using le by (simp add: n) (simp add: us ue)
    then show ?thesis
      using True pagemappings_loop_pages [OF below, of s "Suc ((unat e - unat s) div 4096)" E st]
      by (simp only: pages_between_def if_True)
  next
    case False
    then show ?thesis
      by (subst pagemappings_loop.simps) (simp add: pages_between_def)
  qed
  then show ?thesis
    unfolding pagemappings_range_def s_def e_def
    by (simp add: foldl_show_page_details)
qed

lemma strtol_minus_one: "strtol_model ''-1'' = (- 1, 2)"
  by (simp add: strtol_model_def digit_of_def)

lemma minus_one_line: "runs ''pagemappings -1'' = [''pagemappings'', ''-1'']"
  by (simp add: runs_def WHITESPACE_def)

text \<open>
  C1. Both addresses are masked with \<^verbatim>\<open>~0xFFF\<close> and, for a range that ends below
  the last page of the address space, the loop queries each page of the range once,
  in increasing order (\<open>pagemappings_range_below_top\<close>). For a range that ends in
  the last page, \<open>0xFFFFF000\<close> to \<open>0xFFFFFFFF\<close>, the handler does not return: the
  command \<open>pagemappings -1\<close> hangs the monitor.
\<close>

theorem pagemappings_top_page_never_returns:
  "pagemappings_range E va_start 0xFFFFFFFF st = None
   \<and> mon_pagemappings example_env [''pagemappings'', ''-1''] empty_state = None
   \<and> runcmd example_env ''pagemappings -1'' empty_state = None"
proof -
  have top: "pagemappings_range E' va (- 1) s = None" for E' va s
    by (rule pagemappings_range_top_page) simp
  have m: "mon_pagemappings example_env [''pagemappings'', ''-1''] empty_state = None"
    using top [of example_env "- 1" empty_state]
    by (simp add: mon_pagemappings_def not_fully_parsed_def example_env_def strtol_minus_one
        Let_def)
  have "runcmd example_env ''pagemappings -1'' empty_state
      = mon_pagemappings example_env [''pagemappings'', ''-1''] empty_state"
    by (simp add: runcmd_def runcmd_with_lookup minus_one_line lookup_pagemappings)
  moreover have "pagemappings_range E va_start 0xFFFFFFFF st = None"
    by (rule pagemappings_range_top_page) simp
  ultimately show ?thesis
    using m by simp
qed

section \<open>The stack unwinder\<close>

lemma backtrace_iteration:
  "(backtrace_frame E ebp st)
      \<lparr>mem_reads := mem_reads (backtrace_frame E ebp st) @ [ebp + 4 * of_nat 0]\<rparr>
    = st\<lparr>console := console st @ frame_line E ebp @ symbol_line E ebp,
          mem_reads := mem_reads st @ frame_reads ebp\<rparr>"
  by (simp add: backtrace_frame_def frame_word_def frame_line_def symbol_line_def
      frame_reads_def cprintf_def Let_def)

lemma backtrace_loop_chain:
  "chain (mem E) ebp n \<Longrightarrow>
   backtrace_loop E ebp st
     = Some (st\<lparr>console := console st
                  @ concat (map (\<lambda>fp. frame_line E fp @ symbol_line E fp) (frames (mem E) ebp n)),
                mem_reads := mem_reads st @ concat (map frame_reads (frames (mem E) ebp n))\<rparr>)"
proof (induction n arbitrary: ebp st)
  case 0
  then show ?case
    by (subst backtrace_loop.simps) simp
next
  case (Suc n)
  then have nz: "0 < ebp" and rest: "chain (mem E) (mem E ebp) n"
    by (simp_all add: word_gt_0)
  have w0: "frame_word E ebp 0 = mem E ebp"
    by (simp add: frame_word_def)
  have "backtrace_loop E ebp st
      = backtrace_loop E (mem E ebp)
          (st\<lparr>console := console st @ frame_line E ebp @ symbol_line E ebp,
              mem_reads := mem_reads st @ frame_reads ebp\<rparr>)"
    using nz
    by (subst backtrace_loop.simps) (simp only: Let_def if_True w0 backtrace_iteration)
  then show ?case
    by (simp add: Suc.IH [OF rest])
qed

lemma backtrace_loop_Some_chain:
  assumes "backtrace_loop E ebp st = Some y"
  shows "\<exists>n. chain (mem E) ebp n"
proof (rule backtrace_loop.raw_induct [OF _ assms])
  fix f :: "env \<Rightarrow> u32 \<Rightarrow> mon_state \<Rightarrow> mon_state option"
  fix E :: env and ebp :: u32 and st y :: mon_state
  assume IH: "\<And>E' ebp' s' y'. f E' ebp' s' = Some y' \<Longrightarrow> \<exists>n. chain (mem E') ebp' n"
  assume step: "(if 0 < ebp
      then let st1 = backtrace_frame E ebp st;
               st2 = st1\<lparr>mem_reads := mem_reads st1 @ [ebp + 4 * of_nat 0]\<rparr>
           in f E (frame_word E ebp 0) st2
      else Some st) = Some y"
  show "\<exists>n. chain (mem E) ebp n"
  proof (cases "0 < ebp")
    case True
    with step have "\<exists>s. f E (frame_word E ebp 0) s = Some y"
      by (auto simp: Let_def)
    then obtain n where "chain (mem E) (frame_word E ebp 0) n"
      using IH by blast
    with True have "chain (mem E) ebp (Suc n)"
      by (simp add: frame_word_def word_gt_0)
    then show ?thesis ..
  next
    case False
    then have "chain (mem E) ebp 0"
      by (simp add: word_gt_0)
    then show ?thesis ..
  qed
qed

lemma length_frames: "length (frames m ebp n) = n"
  by (induction n arbitrary: ebp) auto

lemma frame_reads_six:
  "set (frame_reads fp) = {fp, fp + 4, fp + 8, fp + 12, fp + 16, fp + 20}
   \<and> card (set (frame_reads fp)) = 6"
proof -
  have s: "set (frame_reads fp) = set [fp, fp + 4, fp + 8, fp + 12, fp + 16, fp + 20]"
    by (auto simp: frame_reads_def)
  have "distinct [fp, fp + 4, fp + 8, fp + 12, fp + 16, fp + 20]"
    by simp
  then have "card (set [fp, fp + 4, fp + 8, fp + 12, fp + 16, fp + 20]) = 6"
    by (simp only: distinct_card) simp
  with s show ?thesis
    by simp
qed

text \<open>
  C2. From a frame-pointer chain that reaches zero after exactly \<open>n\<close> frames,
  \<^verbatim>\<open>mon_backtrace\<close> prints \<open>n\<close> frame lines, one per frame in chain order, each with
  the frame pointer, word 1 as return address and words 2 to 5 as arguments, reading
  six distinct words per frame, and returns 0. The only exit of the loop is the
  zero frame pointer: from a chain that never reaches zero the handler does not
  return.
\<close>

theorem mon_backtrace_follows_chain:
  "(chain (mem E) (read_ebp E) n \<longrightarrow>
      mon_backtrace E argv st
        = Some (0, st\<lparr>console := console st @ ''Stack backtrace:\<newline>''
                       @ concat (map (\<lambda>fp. frame_line E fp @ symbol_line E fp)
                           (frames (mem E) (read_ebp E) n)),
                     mem_reads := mem_reads st
                       @ concat (map frame_reads (frames (mem E) (read_ebp E) n))\<rparr>)
      \<and> length (frames (mem E) (read_ebp E) n) = n
      \<and> (\<forall>fp. set (frame_reads fp) = {fp, fp + 4, fp + 8, fp + 12, fp + 16, fp + 20}
            \<and> card (set (frame_reads fp)) = 6))
   \<and> ((\<forall>k. \<not> chain (mem E) (read_ebp E) k) \<longrightarrow> mon_backtrace E argv st = None)"
proof (intro conjI impI allI)
  assume c: "chain (mem E) (read_ebp E) n"
  show "mon_backtrace E argv st
        = Some (0, st\<lparr>console := console st @ ''Stack backtrace:\<newline>''
                       @ concat (map (\<lambda>fp. frame_line E fp @ symbol_line E fp)
                           (frames (mem E) (read_ebp E) n)),
                     mem_reads := mem_reads st
                       @ concat (map frame_reads (frames (mem E) (read_ebp E) n))\<rparr>)"
    by (simp add: mon_backtrace_def backtrace_loop_chain [OF c] cprintf_def)
  show "length (frames (mem E) (read_ebp E) n) = n"
    by (rule length_frames)
  show "set (frame_reads fp) = {fp, fp + 4, fp + 8, fp + 12, fp + 16, fp + 20}" for fp
    using frame_reads_six [of fp] by blast
  show "card (set (frame_reads fp)) = 6" for fp
    using frame_reads_six [of fp] by blast
next
  assume never: "\<forall>k. \<not> chain (mem E) (read_ebp E) k"
  have "backtrace_loop E (read_ebp E) s = None" for s
  proof (cases "backtrace_loop E (read_ebp E) s")
    case None
    then show ?thesis .
  next
    case (Some y)
    then have "\<exists>k. chain (mem E) (read_ebp E) k"
      by (rule backtrace_loop_Some_chain)
    with never show ?thesis by blast
  qed
  then show "mon_backtrace E argv st = None"
    by (simp add: mon_backtrace_def)
qed

lemma self_linked_never: "\<not> chain self_linked_stack 0xF010FF38 k"
  by (induction k) (simp_all add: self_linked_stack_def)

lemma upt_9: "[0 ..< 9] = [0, 1, 2, 3, 4, 5, 6, 7, 8::nat]"
  by code_simp

lemma example_symbol_line:
  "symbol_line example_env fp = ''    <unknown>:0: <unknown>+0 (0)\<newline>''"
  by (simp add: symbol_line_def example_env_def no_symbols_def dec_def dec_nat.simps hexdigit_def
      upt_9 Let_def)

lemma example_frame_lines:
  "frame_line example_env 0xF010FF38
  = ''ebp 0xf010ff38  eip 0xf0100a10  args 0x00000000 0x00000000 0x00000000 0x00000000\<newline>''"
  "frame_line example_env 0xF010FF58
  = ''ebp 0xf010ff58  eip 0xf0100068  args 0x00000000 0x00000000 0x00000000 0x00000000\<newline>''"
  "frame_line example_env 0xF010FF78
  = ''ebp 0xf010ff78  eip 0xf010003e  args 0x00000000 0x00000000 0x00000000 0x00000000\<newline>''"
  by (simp_all add: frame_line_def example_env_def example_stack_def hex8_def hexdigit_def)

lemma example_chain: "chain (mem example_env) (read_ebp example_env) 3"
  by (simp add: example_env_def example_stack_def numeral_3_eq_3)

lemma example_frames:
  "frames (mem example_env) (read_ebp example_env) 3 = [0xF010FF38, 0xF010FF58, 0xF010FF78]"
  by (simp add: example_env_def example_stack_def numeral_3_eq_3)

theorem mon_backtrace_follows_chain_witness:
  "chain (mem example_env) (read_ebp example_env) 3
   \<and> mon_backtrace example_env [''backtrace''] empty_state
     = Some (0, \<lparr>console = ''Stack backtrace:\<newline>''
         @ ''ebp 0xf010ff38  eip 0xf0100a10  args 0x00000000 0x00000000 0x00000000 0x00000000\<newline>''
         @ ''    <unknown>:0: <unknown>+0 (0)\<newline>''
         @ ''ebp 0xf010ff58  eip 0xf0100068  args 0x00000000 0x00000000 0x00000000 0x00000000\<newline>''
         @ ''    <unknown>:0: <unknown>+0 (0)\<newline>''
         @ ''ebp 0xf010ff78  eip 0xf010003e  args 0x00000000 0x00000000 0x00000000 0x00000000\<newline>''
         @ ''    <unknown>:0: <unknown>+0 (0)\<newline>'',
        pte_queries = [],
        mem_reads = [0xF010FF3C, 0xF010FF40, 0xF010FF44, 0xF010FF48, 0xF010FF4C, 0xF010FF3C,
                     0xF010FF3C, 0xF010FF38,
                     0xF010FF5C, 0xF010FF60, 0xF010FF64, 0xF010FF68, 0xF010FF6C, 0xF010FF5C,
                     0xF010FF5C, 0xF010FF58,
                     0xF010FF7C, 0xF010FF80, 0xF010FF84, 0xF010FF88, 0xF010FF8C, 0xF010FF7C,
                     0xF010FF7C, 0xF010FF78]\<rparr>)
   \<and> mon_backtrace (example_env\<lparr>mem := self_linked_stack\<rparr>) [''backtrace''] empty_state = None"
proof -
  note T1 = mon_backtrace_follows_chain [of example_env 3 "[''backtrace'']" empty_state]
  from T1 example_chain
  have "mon_backtrace example_env [''backtrace''] empty_state
      = Some (0, empty_state\<lparr>console := console empty_state @ ''Stack backtrace:\<newline>''
                       @ concat (map (\<lambda>fp. frame_line example_env fp @ symbol_line example_env fp)
                           (frames (mem example_env) (read_ebp example_env) 3)),
                     mem_reads := mem_reads empty_state
                       @ concat (map frame_reads
                           (frames (mem example_env) (read_ebp example_env) 3))\<rparr>)"
    by blast
  then have r: "mon_backtrace example_env [''backtrace''] empty_state
     = Some (0, \<lparr>console = ''Stack backtrace:\<newline>''
         @ ''ebp 0xf010ff38  eip 0xf0100a10  args 0x00000000 0x00000000 0x00000000 0x00000000\<newline>''
         @ ''    <unknown>:0: <unknown>+0 (0)\<newline>''
         @ ''ebp 0xf010ff58  eip 0xf0100068  args 0x00000000 0x00000000 0x00000000 0x00000000\<newline>''
         @ ''    <unknown>:0: <unknown>+0 (0)\<newline>''
         @ ''ebp 0xf010ff78  eip 0xf010003e  args 0x00000000 0x00000000 0x00000000 0x00000000\<newline>''
         @ ''    <unknown>:0: <unknown>+0 (0)\<newline>'',
        pte_queries = [],
        mem_reads = [0xF010FF3C, 0xF010FF40, 0xF010FF44, 0xF010FF48, 0xF010FF4C, 0xF010FF3C,
                     0xF010FF3C, 0xF010FF38,
                     0xF010FF5C, 0xF010FF60, 0xF010FF64, 0xF010FF68, 0xF010FF6C, 0xF010FF5C,
                     0xF010FF5C, 0xF010FF58,
                     0xF010FF7C, 0xF010FF80, 0xF010FF84, 0xF010FF88, 0xF010FF8C, 0xF010FF7C,
                     0xF010FF7C, 0xF010FF78]\<rparr>)"
    by (simp add: example_frames example_frame_lines example_symbol_line frame_reads_def
        empty_state_def)
  note T2 = mon_backtrace_follows_chain
      [of "example_env\<lparr>mem := self_linked_stack\<rparr>" _ "[''backtrace'']" empty_state]
  have "\<forall>k. \<not> chain (mem (example_env\<lparr>mem := self_linked_stack\<rparr>))
      (read_ebp (example_env\<lparr>mem := self_linked_stack\<rparr>)) k"
    by (simp add: example_env_def self_linked_never)
  with T2 have n: "mon_backtrace (example_env\<lparr>mem := self_linked_stack\<rparr>) [''backtrace'']
      empty_state = None"
    by blast
  from example_chain r n show ?thesis
    by (simp only: simp_thms)
qed

end
